theory Spec2Isabelle
  imports Complex_Main "HOL-Library.Multiset"
begin

section \<open>Biomarker selection notebook: data model\<close>

text \<open>
  The notebook \<^verbatim>\<open>cll_t2d_common_analysis\<close> is a linear script over pandas tables.
  Python floats are modelled as \<^typ>\<open>real\<close> (the cells compared and sorted are finite
  numbers: scikit-learn refuses NaN and infinite input), RFE ranks as \<^typ>\<open>int\<close>,
  column names as \<^typ>\<open>string\<close>. Every exception the script can raise is a value of
  \<open>py_error\<close>, and a cell that may raise returns \<open>py_error + 'a\<close>.
  The two numbers a t-test returns are the one place where a float that is not a finite
  number reaches the notebook's tables (scipy returns NaN or an infinity for groups that
  are empty, too small or constant); they have the type \<open>float64\<close>.
\<close>

datatype float64 = Finite real | PosInf | NegInf | NaN

datatype py_error = KeyError | ValueError | IndexError

definition and_then :: "py_error + 'a \<Rightarrow> ('a \<Rightarrow> py_error + 'b) \<Rightarrow> py_error + 'b" where
  "and_then m f = (case m of Inl e \<Rightarrow> Inl e | Inr x \<Rightarrow> f x)"

text \<open>
  \<open>frame\<close>: a numeric DataFrame as loaded by \<^verbatim>\<open>pd.read_csv\<close>, column by column, in
  column order. \<open>wf_frame\<close> is what \<^verbatim>\<open>read_csv\<close> guarantees: column names are
  distinct and all columns have one length (the number of samples).
\<close>

type_synonym frame = "(string \<times> real list) list"

definition column_names :: "frame \<Rightarrow> string list" where
  "column_names df = map fst df"

definition n_rows :: "frame \<Rightarrow> nat" where
  "n_rows df = (case df of [] \<Rightarrow> 0 | c # _ \<Rightarrow> length (snd c))"

definition wf_frame :: "frame \<Rightarrow> bool" where
  "wf_frame df \<longleftrightarrow> distinct (column_names df) \<and> list_all (\<lambda>c. length (snd c) = n_rows df) df"

text \<open>An importance table: the two-column DataFrame \<^verbatim>\<open>Feature, Importance\<close>, row by row.\<close>

type_synonym 'a importance_table = "(string \<times> 'a) list"

text \<open>
  The rows the two loops append (Python dicts with fixed keys) and the DataFrame that
  \<^verbatim>\<open>pd.DataFrame(rows)\<close> builds from them.
\<close>

record row =
  Feature :: string

record scored_row = row +
  Lasso :: real
  Random_Forest :: real
  SVM_RFE :: int

record ttest_row = row +
  t_statistic :: float64
  p_value :: float64

record 'r data_frame =
  columns :: "string list"
  rows :: "'r list"

text \<open>
  The third-party calls, taken as parameters: what scikit-learn and scipy compute is
  not code of the notebook. Each fit receives the hyper-parameters the notebook passes
  and returns the fitted attribute the notebook reads, or raises. \<open>ttest_ind\<close> takes
  scipy's \<^verbatim>\<open>equal_var\<close> argument first (\<^verbatim>\<open>True\<close>: Student's test with the pooled
  variance; \<^verbatim>\<open>False\<close>: Welch's test), then the two samples. \<open>set_order\<close> is the
  order in which the running interpreter iterates a \<^verbatim>\<open>set\<close> of strings; Python
  fixes only that every element comes exactly once (\<open>enumerates\<close>).
\<close>

record libraries =
  StandardScaler_fit_transform :: "frame \<Rightarrow> py_error + real list list"
  Lasso_fit :: "real \<Rightarrow> frame \<Rightarrow> real list \<Rightarrow> py_error + real list"
  RandomForestClassifier_fit :: "nat \<Rightarrow> nat \<Rightarrow> frame \<Rightarrow> real list \<Rightarrow> py_error + real list"
  RFE_SVC_fit :: "nat \<Rightarrow> nat \<Rightarrow> frame \<Rightarrow> real list \<Rightarrow> py_error + int list"
  ttest_ind :: "bool \<Rightarrow> real list \<Rightarrow> real list \<Rightarrow> float64 \<times> float64"
  set_order :: "string set \<Rightarrow> string list"

definition enumerates :: "'a list \<Rightarrow> 'a set \<Rightarrow> bool" where
  "enumerates xs S \<longleftrightarrow> set xs = S \<and> distinct xs"

section \<open>pandas operations the notebook uses\<close>

text \<open>\<^verbatim>\<open>df[name]\<close>: the column, KeyError when there is none.\<close>

definition get_column :: "frame \<Rightarrow> string \<Rightarrow> py_error + real list" where
  "get_column df name = (case map_of df name of None \<Rightarrow> Inl KeyError | Some v \<Rightarrow> Inr v)"

text \<open>\<^verbatim>\<open>df.drop(columns=[name])\<close>: KeyError when the column is absent.\<close>

definition drop_column :: "frame \<Rightarrow> string \<Rightarrow> py_error + frame" where
  "drop_column df name =
     (if name \<in> set (column_names df) then Inr (filter (\<lambda>c. fst c \<noteq> name) df) else Inl KeyError)"

text \<open>\<^verbatim>\<open>df[names]\<close> with a list of names: those columns, in the order of the list.\<close>

fun select_columns :: "frame \<Rightarrow> string list \<Rightarrow> py_error + frame" where
  "select_columns df [] = Inr []"
| "select_columns df (name # names) =
     and_then (get_column df name) (\<lambda>v.
     and_then (select_columns df names) (\<lambda>rest. Inr ((name, v) # rest)))"

text \<open>\<^verbatim>\<open>df[name] = values\<close>: replaces the column, or appends it as the last one.\<close>

definition set_column :: "frame \<Rightarrow> string \<Rightarrow> real list \<Rightarrow> frame" where
  "set_column df name v =
     (if name \<in> set (column_names df)
      then map (\<lambda>c. if fst c = name then (name, v) else c) df
      else df @ [(name, v)])"

text \<open>\<^verbatim>\<open>df[mask]\<close> with a boolean mask: the rows where the mask holds.\<close>

definition filter_rows :: "frame \<Rightarrow> bool list \<Rightarrow> frame" where
  "filter_rows df keep = map (\<lambda>c. (fst c, map fst (filter snd (zip (snd c) keep)))) df"

text \<open>
  \<^verbatim>\<open>pd.DataFrame({'Feature': X.columns, 'Importance': importance})\<close>: ValueError when
  the two arrays differ in length.
\<close>

definition importance_frame :: "string list \<Rightarrow> 'a list \<Rightarrow> py_error + 'a importance_table" where
  "importance_frame features importance =
     (if length features = length importance then Inr (zip features importance) else Inl ValueError)"

text \<open>
  \<^verbatim>\<open>sort_values(by='Importance', ascending=False)\<close>. pandas reverses the column,
  sorts it in ascending order and reverses the result; with a stable sort (what numpy
  runs on a short column) rows with equal scores keep the order they had, as they do
  here (\<open>sort_key\<close> is a stable insertion sort). On a long column the order among equal
  scores is numpy's; no statement below depends on it.
  \<^verbatim>\<open>reset_index(drop=True)\<close> renumbers the rows and is the identity on a list.
\<close>

definition sort_values_desc :: "('a::linorder) importance_table \<Rightarrow> 'a importance_table" where
  "sort_values_desc t = rev (sort_key snd (rev t))"

text \<open>\<^verbatim>\<open>t[t['Importance'] > 0]\<close>.\<close>

definition positive_importance :: "('a::{linorder,zero}) importance_table \<Rightarrow> 'a importance_table" where
  "positive_importance t = filter (\<lambda>r. 0 < snd r) t"

text \<open>\<^verbatim>\<open>t[t['Feature'] == feature]['Importance'].values\<close> and its element 0.\<close>

definition matching_values :: "'a importance_table \<Rightarrow> string \<Rightarrow> 'a list" where
  "matching_values t feature = map snd (filter (\<lambda>r. fst r = feature) t)"

definition values0 :: "'a importance_table \<Rightarrow> string \<Rightarrow> py_error + 'a" where
  "values0 t feature = (case matching_values t feature of [] \<Rightarrow> Inl IndexError | v # _ \<Rightarrow> Inr v)"

text \<open>
  \<^verbatim>\<open>pd.DataFrame(rows)\<close> on a list of dicts: the columns are the keys of the dicts, so
  a list with no dict gives a frame with no column. \<^verbatim>\<open>to_csv(path, index=False)\<close>
  writes the column names as the header line and one line per row: the file is
  determined by the frame, and the model keeps the frame for the file.
\<close>

definition DataFrame :: "string list \<Rightarrow> 'r list \<Rightarrow> 'r data_frame" where
  "DataFrame keys rs = \<lparr>columns = (if rs = [] then [] else keys), rows = rs\<rparr>"

section \<open>The cells of the notebook\<close>

text \<open>Cell 3: \<^verbatim>\<open>X = data.drop(columns=['label']); y = data['label']\<close>.\<close>

definition select_features_and_target :: "frame \<Rightarrow> py_error + frame \<times> real list" where
  "select_features_and_target data =
     and_then (drop_column data ''label'') (\<lambda>X.
     and_then (get_column data ''label'') (\<lambda>y. Inr (X, y)))"

text \<open>Cells 7 to 9, the part they share: build the table, sort it, keep the positive rows.\<close>

definition feature_importance :: "string list \<Rightarrow> ('a::linorder) list \<Rightarrow> py_error + 'a importance_table" where
  "feature_importance features importance =
     and_then (importance_frame features importance) (\<lambda>t. Inr (sort_values_desc t))"

definition lasso_ranking :: "libraries \<Rightarrow> frame \<Rightarrow> real list \<Rightarrow> py_error + real importance_table" where
  "lasso_ranking lib X y =
     and_then (Lasso_fit lib (1 / 100) X y) (\<lambda>coef.
       feature_importance (column_names X) (map abs coef))"

definition rf_ranking :: "libraries \<Rightarrow> frame \<Rightarrow> real list \<Rightarrow> py_error + real importance_table" where
  "rf_ranking lib X y =
     and_then (RandomForestClassifier_fit lib 100 42 X y) (\<lambda>importance.
       feature_importance (column_names X) importance)"

definition svmrfe_ranking :: "libraries \<Rightarrow> frame \<Rightarrow> real list \<Rightarrow> py_error + int importance_table" where
  "svmrfe_ranking lib X y =
     and_then (RFE_SVC_fit lib 42 10 X y) (\<lambda>ranking.
       feature_importance (column_names X) ranking)"

text \<open>Cell 10: the three sets of names and their intersection.\<close>

definition feature_set :: "'a importance_table \<Rightarrow> string set" where
  "feature_set t = set (map fst t)"

definition intersection_features ::
  "'a importance_table \<Rightarrow> 'b importance_table \<Rightarrow> 'c importance_table \<Rightarrow> string set" where
  "intersection_features lasso_t rf_t svmrfe_t =
     (feature_set lasso_t \<inter> feature_set rf_t) \<inter> feature_set svmrfe_t"

text \<open>Cell 11: one row of scores per feature, in the iteration order of the set.\<close>

definition score_row ::
  "real importance_table \<Rightarrow> real importance_table \<Rightarrow> int importance_table \<Rightarrow> string
     \<Rightarrow> py_error + scored_row" where
  "score_row lasso_t rf_t svmrfe_t feature =
     and_then (values0 lasso_t feature) (\<lambda>lasso_score.
     and_then (values0 rf_t feature) (\<lambda>rf_score.
     and_then (values0 svmrfe_t feature) (\<lambda>svmrfe_score.
       Inr \<lparr>Feature = feature, Lasso = lasso_score, Random_Forest = rf_score,
            SVM_RFE = svmrfe_score\<rparr>)))"

fun score_loop ::
  "real importance_table \<Rightarrow> real importance_table \<Rightarrow> int importance_table \<Rightarrow> string list
     \<Rightarrow> scored_row list \<Rightarrow> py_error + scored_row list" where
  "score_loop lasso_t rf_t svmrfe_t [] acc = Inr acc"
| "score_loop lasso_t rf_t svmrfe_t (feature # rest) acc =
     and_then (score_row lasso_t rf_t svmrfe_t feature) (\<lambda>r.
       score_loop lasso_t rf_t svmrfe_t rest (acc @ [r]))"

definition scored_columns :: "string list" where
  "scored_columns = [''Feature'', ''Lasso'', ''Random Forest'', ''SVM-RFE'']"

definition compile_scores ::
  "real importance_table \<Rightarrow> real importance_table \<Rightarrow> int importance_table \<Rightarrow> string list
     \<Rightarrow> py_error + scored_row data_frame" where
  "compile_scores lasso_t rf_t svmrfe_t order =
     and_then (score_loop lasso_t rf_t svmrfe_t order []) (\<lambda>rs.
       Inr (DataFrame scored_columns rs))"

text \<open>
  Cell 12: the data are read again, the common columns are selected, the label column
  is added, and each feature's values are split by label and tested. The call
  \<^verbatim>\<open>ttest_ind(group1, group2)\<close> passes the two groups only, so \<^verbatim>\<open>equal_var\<close> has
  scipy's default, \<^verbatim>\<open>True\<close>.
\<close>

definition label_group :: "frame \<Rightarrow> real \<Rightarrow> string \<Rightarrow> py_error + real list" where
  "label_group df k feature =
     and_then (get_column df ''label'') (\<lambda>labels.
       get_column (filter_rows df (map (\<lambda>l. l = k) labels)) feature)"

definition ttest_row_of ::
  "(bool \<Rightarrow> real list \<Rightarrow> real list \<Rightarrow> float64 \<times> float64) \<Rightarrow> frame \<Rightarrow> string
     \<Rightarrow> py_error + ttest_row" where
  "ttest_row_of ttest df feature =
     and_then (label_group df 0 feature) (\<lambda>group1.
     and_then (label_group df 1 feature) (\<lambda>group2.
       case ttest True group1 group2 of (t_stat, p) \<Rightarrow>
         Inr \<lparr>Feature = feature, t_statistic = t_stat, p_value = p\<rparr>))"

fun ttest_loop ::
  "(bool \<Rightarrow> real list \<Rightarrow> real list \<Rightarrow> float64 \<times> float64) \<Rightarrow> frame \<Rightarrow> string list
     \<Rightarrow> ttest_row list
     \<Rightarrow> py_error + ttest_row list" where
  "ttest_loop ttest df [] acc = Inr acc"
| "ttest_loop ttest df (feature # rest) acc =
     and_then (ttest_row_of ttest df feature) (\<lambda>r. ttest_loop ttest df rest (acc @ [r]))"

definition ttest_columns :: "string list" where
  "ttest_columns = [''Feature'', ''t-statistic'', ''p-value'']"

definition verify_t_test ::
  "(bool \<Rightarrow> real list \<Rightarrow> real list \<Rightarrow> float64 \<times> float64) \<Rightarrow> frame \<Rightarrow> string list
     \<Rightarrow> py_error + ttest_row data_frame" where
  "verify_t_test ttest data common_biomarkers =
     and_then (select_features_and_target data) (\<lambda>(X, y).
     and_then (select_columns data common_biomarkers) (\<lambda>selected.
     and_then (ttest_loop ttest (set_column selected ''label'' y) common_biomarkers []) (\<lambda>rs.
       Inr (DataFrame ttest_columns rs))))"

text \<open>The whole run, from the loaded data to the variables the notebook ends with.\<close>

record notebook =
  X_scaled :: "real list list"
  lasso_feature_importance :: "real importance_table"
  rf_feature_importance :: "real importance_table"
  svmrfe_feature_importance :: "int importance_table"
  common_features :: "string set"
  selected_features :: "scored_row data_frame"
  t_test_results_df :: "ttest_row data_frame"

definition run :: "libraries \<Rightarrow> frame \<Rightarrow> py_error + notebook" where
  "run lib data =
     and_then (select_features_and_target data) (\<lambda>(X, y).
     and_then (StandardScaler_fit_transform lib X) (\<lambda>scaled.
     and_then (lasso_ranking lib X y) (\<lambda>lasso_fi.
     and_then (rf_ranking lib X y) (\<lambda>rf_fi.
     and_then (svmrfe_ranking lib X y) (\<lambda>svmrfe_fi.
       let lasso_t = positive_importance lasso_fi;
           rf_t = positive_importance rf_fi;
           svmrfe_t = positive_importance svmrfe_fi;
           common = intersection_features lasso_t rf_t svmrfe_t;
           order = set_order lib common
       in
     and_then (compile_scores lasso_t rf_t svmrfe_t order) (\<lambda>scored.
     and_then (verify_t_test (ttest_ind lib) data order) (\<lambda>tested.
       Inr \<lparr>X_scaled = scaled,
            lasso_feature_importance = lasso_t,
            rf_feature_importance = rf_t,
            svmrfe_feature_importance = svmrfe_t,
            common_features = common,
            selected_features = scored,
            t_test_results_df = tested\<rparr>)))))))"

text \<open>
  The specification's reading of the validator, to compare the cell with: the values
  of one feature column over the samples whose label is \<open>k\<close>.
\<close>

definition partition_by_label :: "real list \<Rightarrow> real list \<Rightarrow> real \<Rightarrow> real list" where
  "partition_by_label col labels k = map fst (filter (\<lambda>s. snd s = k) (zip col labels))"

definition expected_ttest_row ::
  "(bool \<Rightarrow> real list \<Rightarrow> real list \<Rightarrow> float64 \<times> float64) \<Rightarrow> frame \<Rightarrow> real list \<Rightarrow> string
     \<Rightarrow> py_error + ttest_row" where
  "expected_ttest_row ttest data y feature =
     and_then (get_column data feature) (\<lambda>col.
       case ttest True (partition_by_label col y 0) (partition_by_label col y 1) of (t_stat, p) \<Rightarrow>
         Inr \<lparr>Feature = feature, t_statistic = t_stat, p_value = p\<rparr>)"

text \<open>
  The specification's test: the statistic of the independent two-sample Student test
  with the equal-variance assumption, that is, the difference of the two sample means
  over its standard error under the variance pooled from both samples
  (\<open>n1 + n2 - 2\<close> degrees of freedom). \<open>student_contract\<close> says of a test function
  that, called with \<^verbatim>\<open>equal_var=True\<close> on two samples of at least two values each
  whose pooled variance is positive, it returns this statistic: what scipy documents for
  \<^verbatim>\<open>ttest_ind\<close>. The p-value (a tail of Student's distribution) is left to the
  library.
\<close>

definition sample_mean :: "real list \<Rightarrow> real" where
  "sample_mean xs = sum_list xs / real (length xs)"

definition squared_deviations :: "real list \<Rightarrow> real" where
  "squared_deviations xs = sum_list (map (\<lambda>x. (x - sample_mean xs)\<^sup>2) xs)"

definition pooled_variance :: "real list \<Rightarrow> real list \<Rightarrow> real" where
  "pooled_variance a b =
     (squared_deviations a + squared_deviations b) / real (length a + length b - 2)"

definition student_t_statistic :: "real list \<Rightarrow> real list \<Rightarrow> real" where
  "student_t_statistic a b =
     (sample_mean a - sample_mean b)
       / sqrt (pooled_variance a b * (1 / real (length a) + 1 / real (length b)))"

definition regular_samples :: "real list \<Rightarrow> real list \<Rightarrow> bool" where
  "regular_samples a b \<longleftrightarrow> 2 \<le> length a \<and> 2 \<le> length b \<and> 0 < pooled_variance a b"

definition student_contract ::
  "(bool \<Rightarrow> real list \<Rightarrow> real list \<Rightarrow> float64 \<times> float64) \<Rightarrow> bool" where
  "student_contract ttest \<longleftrightarrow>
     (\<forall>a b. regular_samples a b \<longrightarrow> fst (ttest True a b) = Finite (student_t_statistic a b))"

text \<open>The samples of a frame whose label is 0 or 1 (all samples when there is no label).\<close>

definition binary_samples :: "frame \<Rightarrow> frame" where
  "binary_samples data =
     (case map_of data ''label'' of
        None \<Rightarrow> data
      | Some y \<Rightarrow> filter_rows data (map (\<lambda>l. l = 0 \<or> l = 1) y))"

section \<open>The error monad\<close>

lemma and_then_Inl [simp]: "and_then (Inl e) f = Inl e"
  by (simp add: and_then_def)

lemma and_then_Inr [simp]: "and_then (Inr x) f = f x"
  by (simp add: and_then_def)

lemma and_then_eq_Inr: "and_then m f = Inr z \<longleftrightarrow> (\<exists>x. m = Inr x \<and> f x = Inr z)"
  by (cases m) simp_all

section \<open>Importance tables\<close>

lemma importance_frame_Inr:
  "importance_frame fs imp = Inr t \<longleftrightarrow> length fs = length imp \<and> t = zip fs imp"
  by (auto simp: importance_frame_def)

lemma feature_importance_Inr:
  "feature_importance fs imp = Inr t \<longleftrightarrow>
     length fs = length imp \<and> t = sort_values_desc (zip fs imp)"
  by (auto simp: feature_importance_def and_then_eq_Inr importance_frame_Inr)

lemma mset_sort_values_desc: "mset (sort_values_desc t) = mset t"
  by (simp add: sort_values_desc_def)

lemma set_sort_values_desc: "set (sort_values_desc t) = set t"
  by (simp add: sort_values_desc_def)

lemma sorted_sort_values_desc: "sorted (rev (map snd (sort_values_desc t)))"
  by (simp add: sort_values_desc_def rev_map [symmetric])

lemma length_sort_values_desc: "length (sort_values_desc t) = length t"
  by (simp add: sort_values_desc_def)

lemma features_sort_values_desc:
  "length fs = length imp \<Longrightarrow> mset (map fst (sort_values_desc (zip fs imp))) = mset fs"
proof -
  assume len: "length fs = length imp"
  have "mset (map fst (sort_values_desc (zip fs imp))) = image_mset fst (mset (zip fs imp))"
    by (simp add: mset_sort_values_desc)
  also have "\<dots> = mset (map fst (zip fs imp))"
    by simp
  also have "\<dots> = mset fs"
    using len by (simp only: map_fst_zip)
  finally show ?thesis .
qed

lemma feature_importance_table:
  assumes "distinct features" and "length importance = length features"
  shows "\<exists>fi. feature_importance features importance = Inr fi
           \<and> mset fi = mset (zip features importance)
           \<and> set (map fst fi) = set features
           \<and> (\<forall>f \<in> set features. count_list (map fst fi) f = 1)
           \<and> sorted (rev (map snd fi))"
proof -
  let ?fi = "sort_values_desc (zip features importance)"
  have len: "length features = length importance"
    using assms(2) by simp
  have run: "feature_importance features importance = Inr ?fi"
    using len by (simp add: feature_importance_Inr)
  have names: "mset (map fst ?fi) = mset features"
    using len by (rule features_sort_values_desc)
  have once: "count_list (map fst ?fi) f = 1" if "f \<in> set features" for f
  proof -
    have "count (mset (map fst ?fi)) f = count (mset features) f"
      by (simp only: names)
    also have "\<dots> = 1"
      using assms(1) that by (simp add: distinct_count_atmost_1)
    finally show ?thesis
      by (simp only: count_mset)
  qed
  have "set (map fst ?fi) = set features"
    using names by (rule mset_eq_setD)
  with run once show ?thesis
    by (auto simp: mset_sort_values_desc sorted_sort_values_desc)
qed

section \<open>Score compilation\<close>

lemma feature_set_positive: "feature_set (positive_importance t) \<subseteq> feature_set t"
  by (auto simp: feature_set_def positive_importance_def)

lemma matching_values_nonempty:
  "matching_values t f \<noteq> [] \<longleftrightarrow> f \<in> feature_set t"
  by (auto simp: matching_values_def feature_set_def filter_empty_conv)

lemma values0_Inr_iff: "values0 t f = Inr v \<longleftrightarrow> map_of t f = Some v"
proof (induction t)
  case Nil
  show ?case by (simp add: values0_def matching_values_def)
next
  case (Cons r t)
  then show ?case
    by (cases r) (auto simp: values0_def matching_values_def)
qed

lemma values0_total: "f \<in> feature_set t \<Longrightarrow> \<exists>v. values0 t f = Inr v"
  by (auto simp: values0_Inr_iff feature_set_def weak_map_of_SomeI
      dest!: weak_map_of_SomeI)

lemma score_row_Inr:
  "score_row L R S f = Inr r \<longleftrightarrow>
     (\<exists>a b c. map_of L f = Some a \<and> map_of R f = Some b \<and> map_of S f = Some c
        \<and> r = \<lparr>Feature = f, Lasso = a, Random_Forest = b, SVM_RFE = c\<rparr>)"
  by (auto simp: score_row_def and_then_eq_Inr values0_Inr_iff)

lemma score_row_total:
  "f \<in> intersection_features L R S \<Longrightarrow> \<exists>r. score_row L R S f = Inr r"
proof -
  assume "f \<in> intersection_features L R S"
  then have "f \<in> feature_set L" "f \<in> feature_set R" "f \<in> feature_set S"
    by (simp_all add: intersection_features_def)
  then obtain a b c where "values0 L f = Inr a" "values0 R f = Inr b" "values0 S f = Inr c"
    by (meson values0_total)
  then show ?thesis
    by (simp add: score_row_def)
qed

lemma score_loop_Inr:
  "score_loop L R S fs acc = Inr out \<longleftrightarrow>
     (\<exists>rs. map (score_row L R S) fs = map Inr rs \<and> out = acc @ rs)"
proof (induction fs arbitrary: acc)
  case Nil
  show ?case by auto
next
  case (Cons f fs)
  show ?case
  proof
    assume "score_loop L R S (f # fs) acc = Inr out"
    then obtain r where r: "score_row L R S f = Inr r"
      and rest: "score_loop L R S fs (acc @ [r]) = Inr out"
      by (auto simp: and_then_eq_Inr)
    from rest Cons.IH obtain rs where "map (score_row L R S) fs = map Inr rs" "out = (acc @ [r]) @ rs"
      by blast
    with r have "map (score_row L R S) (f # fs) = map Inr (r # rs) \<and> out = acc @ (r # rs)"
      by simp
    then show "\<exists>rs. map (score_row L R S) (f # fs) = map Inr rs \<and> out = acc @ rs"
      by blast
  next
    assume "\<exists>rs. map (score_row L R S) (f # fs) = map Inr rs \<and> out = acc @ rs"
    then obtain rs where m: "map (score_row L R S) (f # fs) = map Inr rs" and out: "out = acc @ rs"
      by blast
    from m obtain r rs' where rs: "rs = r # rs'" and r: "score_row L R S f = Inr r"
      and m': "map (score_row L R S) fs = map Inr rs'"
      by (cases rs) auto
    from m' out rs have "score_loop L R S fs (acc @ [r]) = Inr out"
      using Cons.IH [of "acc @ [r]"] by auto
    with r show "score_loop L R S (f # fs) acc = Inr out"
      by simp
  qed
qed

lemma map_all_Inr:
  "(\<And>x. x \<in> set xs \<Longrightarrow> \<exists>y. g x = Inr y) \<Longrightarrow> \<exists>ys. map g xs = map Inr ys"
proof (induction xs)
  case Nil
  show ?case by simp
next
  case (Cons x xs)
  then obtain y ys where "g x = Inr y" "map g xs = map Inr ys"
    by (meson list.set_intros)
  then have "map g (x # xs) = map Inr (y # ys)"
    by simp
  then show ?case ..
qed

lemma score_loop_total:
  assumes "set fs \<subseteq> intersection_features L R S"
  shows "\<exists>rs. score_loop L R S fs acc = Inr (acc @ rs)"
proof -
  have "\<exists>rs. map (score_row L R S) fs = map Inr rs"
    using assms by (intro map_all_Inr score_row_total) auto
  then show ?thesis
    by (auto simp: score_loop_Inr)
qed

lemma rows_DataFrame [simp]: "rows (DataFrame keys rs) = rs"
  by (simp add: DataFrame_def)

lemma compile_scores_Inr:
  "compile_scores L R S order = Inr df \<longleftrightarrow>
     (\<exists>rs. map (score_row L R S) order = map Inr rs \<and> df = DataFrame scored_columns rs)"
  by (auto simp: compile_scores_def and_then_eq_Inr score_loop_Inr)

lemma compile_scores_total:
  assumes "set order \<subseteq> intersection_features L R S"
  shows "\<exists>df. compile_scores L R S order = Inr df"
  using score_loop_total [OF assms, of "[]"] by (auto simp: compile_scores_def)

lemma map_Inr_features:
  assumes "map (score_row L R S) order = map Inr rs"
  shows "map Feature rs = order
    \<and> (\<forall>r \<in> set rs. map_of L (Feature r) = Some (Lasso r)
          \<and> map_of R (Feature r) = Some (Random_Forest r)
          \<and> map_of S (Feature r) = Some (SVM_RFE r))"
  using assms
proof (induction order arbitrary: rs)
  case Nil
  then show ?case by simp
next
  case (Cons f order)
  then obtain r rs' where rs: "rs = r # rs'" and r: "score_row L R S f = Inr r"
    and rest: "map (score_row L R S) order = map Inr rs'"
    by (cases rs) auto
  from r have "Feature r = f" "map_of L f = Some (Lasso r)" "map_of R f = Some (Random_Forest r)"
    "map_of S f = Some (SVM_RFE r)"
    by (auto simp: score_row_Inr)
  with Cons.IH [OF rest] rs show ?case
    by simp
qed

text \<open>
  Claim C9. In the score-compilation loop, for every feature of the intersection the
  rows matched in each of the three selected tables are not empty, so that element 0
  of the matched values exists and the loop raises no IndexError: the intersection is
  a subset of each table's features.
\<close>

theorem lookups_in_bounds:
  assumes "set order \<subseteq> intersection_features lasso_t rf_t svmrfe_t"
  shows "(\<forall>f \<in> set order. matching_values lasso_t f \<noteq> [] \<and> matching_values rf_t f \<noteq> []
            \<and> matching_values svmrfe_t f \<noteq> []
            \<and> (\<exists>r. score_row lasso_t rf_t svmrfe_t f = Inr r))
       \<and> (\<exists>df. compile_scores lasso_t rf_t svmrfe_t order = Inr df)"
proof -
  have "matching_values lasso_t f \<noteq> [] \<and> matching_values rf_t f \<noteq> []
          \<and> matching_values svmrfe_t f \<noteq> [] \<and> (\<exists>r. score_row lasso_t rf_t svmrfe_t f = Inr r)"
    if "f \<in> set order" for f
  proof -
    from that assms have f: "f \<in> intersection_features lasso_t rf_t svmrfe_t"
      by auto
    then have "f \<in> feature_set lasso_t" "f \<in> feature_set rf_t" "f \<in> feature_set svmrfe_t"
      by (simp_all add: intersection_features_def)
    with score_row_total [OF f] show ?thesis
      by (simp add: matching_values_nonempty)
  qed
  with compile_scores_total [OF assms] show ?thesis
    by blast
qed

theorem lookups_in_bounds_witness:
  "set [''g2''] \<subseteq> intersection_features [(''g2'', 1 / 2), (''g1'', 1 / 4 :: real)]
       [(''g2'', 3 / 4 :: real)] [(''g3'', 2), (''g2'', 1), (''g1'', 1 :: int)]
   \<and> matching_values [(''g2'', 1 / 2), (''g1'', 1 / 4 :: real)] ''g2'' = [1 / 2]
   \<and> compile_scores [(''g2'', 1 / 2), (''g1'', 1 / 4)] [(''g2'', 3 / 4)]
        [(''g3'', 2), (''g2'', 1), (''g1'', 1)] [''g2'']
      = Inr \<lparr>columns = [''Feature'', ''Lasso'', ''Random Forest'', ''SVM-RFE''],
             rows = [\<lparr>Feature = ''g2'', Lasso = 1 / 2, Random_Forest = 3 / 4, SVM_RFE = 1\<rparr>]\<rparr>"
proof -
  have sub: "set [''g2''] \<subseteq> intersection_features [(''g2'', 1 / 2), (''g1'', 1 / 4 :: real)]
       [(''g2'', 3 / 4 :: real)] [(''g3'', 2), (''g2'', 1), (''g1'', 1 :: int)]"
    by (simp add: intersection_features_def feature_set_def)
  show ?thesis
    using sub lookups_in_bounds [OF sub]
    by (simp add: matching_values_def compile_scores_def score_row_def values0_def
        DataFrame_def scored_columns_def)
qed

section \<open>The validator\<close>

lemma get_column_Inr: "get_column df n = Inr v \<longleftrightarrow> map_of df n = Some v"
  by (simp add: get_column_def split: option.splits)

lemma map_of_in_columns: "n \<in> set (column_names df) \<Longrightarrow> \<exists>v. map_of df n = Some v"
  by (metis column_names_def map_of_eq_None_iff not_Some_eq set_map)

lemma map_of_Some_in_columns: "map_of df n = Some v \<Longrightarrow> n \<in> set (column_names df)"
  by (metis column_names_def map_of_eq_None_iff option.distinct(1) set_map)

lemma select_features_and_target_Inr:
  "select_features_and_target data = Inr (X, y) \<longleftrightarrow>
     X = filter (\<lambda>c. fst c \<noteq> ''label'') data \<and> map_of data ''label'' = Some y"
  by (auto simp: select_features_and_target_def drop_column_def and_then_eq_Inr get_column_Inr
      dest: map_of_Some_in_columns)

lemma select_columns_Inr:
  "select_columns df names = Inr sel \<Longrightarrow>
     map fst sel = names \<and> (\<forall>f \<in> set names. map_of sel f = map_of df f)"
proof (induction names arbitrary: sel)
  case Nil
  then show ?case by simp
next
  case (Cons n names)
  then obtain v rest where v: "map_of df n = Some v"
    and rest: "select_columns df names = Inr rest" and sel: "sel = (n, v) # rest"
    by (auto simp: and_then_eq_Inr get_column_Inr)
  from Cons.IH [OF rest] sel v show ?case
    by auto
qed

lemma select_columns_total:
  "set names \<subseteq> set (column_names df) \<Longrightarrow> \<exists>sel. select_columns df names = Inr sel"
proof (induction names)
  case Nil
  show ?case by simp
next
  case (Cons n names)
  then obtain v sel where "map_of df n = Some v" "select_columns df names = Inr sel"
    using map_of_in_columns [of n df] by auto
  then show ?case
    by (simp add: get_column_def)
qed

lemma map_of_replace:
  "map_of (map (\<lambda>c. if fst c = n then (n, v) else c) df) f =
     (if f = n \<and> n \<in> fst ` set df then Some v else map_of df f)"
  by (induction df) force+

lemma map_of_set_column:
  "map_of (set_column df n v) f = (if f = n then Some v else map_of df f)"
  by (auto simp: set_column_def column_names_def map_of_replace map_add_def
      split: option.splits simp flip: map_of_eq_None_iff)

lemma map_of_filter_rows:
  "map_of (filter_rows df keep) f =
     map_option (\<lambda>col. map fst (filter snd (zip col keep))) (map_of df f)"
  by (induction df) (auto simp: filter_rows_def)

lemma masked_column:
  "map fst (filter snd (zip col (map (\<lambda>l. l = k) labels))) = partition_by_label col labels k"
  unfolding partition_by_label_def
  by (induction col labels rule: list_induct2') auto

lemma label_group_Inr:
  "label_group df k f = Inr g \<longleftrightarrow>
     (\<exists>labels col. map_of df ''label'' = Some labels \<and> map_of df f = Some col
        \<and> g = partition_by_label col labels k)"
  by (auto simp: label_group_def and_then_eq_Inr get_column_Inr map_of_filter_rows masked_column)

lemma label_group_eq:
  assumes "map_of df ''label'' = Some labels" and "map_of df f = Some col"
  shows "label_group df k f = Inr (partition_by_label col labels k)"
  using assms by (simp add: label_group_Inr)

lemma label_group_missing:
  assumes "map_of df ''label'' = Some labels" and "map_of df f = None"
  shows "label_group df k f = Inl KeyError"
  using assms by (simp add: label_group_def get_column_def map_of_filter_rows)

lemma ttest_row_of_expected:
  assumes "map_of df ''label'' = Some y" and "map_of df f = map_of data f"
  shows "ttest_row_of ttest df f = expected_ttest_row ttest data y f"
proof (cases "map_of data f")
  case None
  with assms show ?thesis
    by (simp add: ttest_row_of_def expected_ttest_row_def label_group_missing get_column_def)
next
  case (Some col)
  with assms show ?thesis
    by (simp add: ttest_row_of_def expected_ttest_row_def label_group_eq get_column_def)
qed

lemma ttest_loop_Inr:
  "ttest_loop ttest df fs acc = Inr out \<longleftrightarrow>
     (\<exists>rs. map (ttest_row_of ttest df) fs = map Inr rs \<and> out = acc @ rs)"
proof (induction fs arbitrary: acc)
  case Nil
  show ?case by auto
next
  case (Cons f fs)
  show ?case
  proof
    assume "ttest_loop ttest df (f # fs) acc = Inr out"
    then obtain r where r: "ttest_row_of ttest df f = Inr r"
      and rest: "ttest_loop ttest df fs (acc @ [r]) = Inr out"
      by (auto simp: and_then_eq_Inr)
    from rest Cons.IH obtain rs where "map (ttest_row_of ttest df) fs = map Inr rs" "out = (acc @ [r]) @ rs"
      by blast
    with r have "map (ttest_row_of ttest df) (f # fs) = map Inr (r # rs) \<and> out = acc @ (r # rs)"
      by simp
    then show "\<exists>rs. map (ttest_row_of ttest df) (f # fs) = map Inr rs \<and> out = acc @ rs"
      by blast
  next
    assume "\<exists>rs. map (ttest_row_of ttest df) (f # fs) = map Inr rs \<and> out = acc @ rs"
    then obtain rs where m: "map (ttest_row_of ttest df) (f # fs) = map Inr rs" and out: "out = acc @ rs"
      by blast
    from m obtain r rs' where rs: "rs = r # rs'" and r: "ttest_row_of ttest df f = Inr r"
      and m': "map (ttest_row_of ttest df) fs = map Inr rs'"
      by (cases rs) auto
    from m' out rs have "ttest_loop ttest df fs (acc @ [r]) = Inr out"
      using Cons.IH [of "acc @ [r]"] by auto
    with r show "ttest_loop ttest df (f # fs) acc = Inr out"
      by simp
  qed
qed

text \<open>The validator cell, in terms of the raw data only.\<close>

lemma verify_t_test_Inr:
  assumes "map_of data ''label'' = Some y" and "set order \<subseteq> set (column_names data)"
  shows "verify_t_test ttest data order = Inr df \<longleftrightarrow>
     (\<exists>rs. map (expected_ttest_row ttest data y) order = map Inr rs
        \<and> df = DataFrame ttest_columns rs)"
proof -
  obtain sel where sel: "select_columns data order = Inr sel"
    using select_columns_total [OF assms(2)] by blast
  let ?df = "set_column sel ''label'' y"
  have split: "select_features_and_target data = Inr (filter (\<lambda>c. fst c \<noteq> ''label'') data, y)"
    using assms(1) by (simp add: select_features_and_target_Inr)
  have "map_of ?df f = map_of data f" if "f \<in> set order" for f
    using select_columns_Inr [OF sel] that assms(1) by (simp add: map_of_set_column)
  then have "ttest_row_of ttest ?df f = expected_ttest_row ttest data y f" if "f \<in> set order" for f
    using that by (intro ttest_row_of_expected) (simp_all add: map_of_set_column)
  then have eq: "map (ttest_row_of ttest ?df) order = map (expected_ttest_row ttest data y) order"
    by simp
  have loop: "ttest_loop ttest ?df order [] = Inr out \<longleftrightarrow>
      map (expected_ttest_row ttest data y) order = map Inr out" for out
    unfolding ttest_loop_Inr eq by auto
  show ?thesis
    by (auto simp: verify_t_test_def split sel and_then_eq_Inr loop)
qed

lemma expected_ttest_row_total:
  "f \<in> set (column_names data) \<Longrightarrow> \<exists>r. expected_ttest_row ttest data y f = Inr r"
  by (auto simp: expected_ttest_row_def get_column_def split: prod.splits dest!: map_of_in_columns)

lemma verify_t_test_total:
  assumes "map_of data ''label'' = Some y" and "set order \<subseteq> set (column_names data)"
  shows "\<exists>rs. map (expected_ttest_row ttest data y) order = map Inr rs
           \<and> verify_t_test ttest data order = Inr (DataFrame ttest_columns rs)"
proof -
  have "\<exists>rs. map (expected_ttest_row ttest data y) order = map Inr rs"
    using assms(2) by (intro map_all_Inr expected_ttest_row_total) auto
  then show ?thesis
    by (auto simp: verify_t_test_Inr [OF assms])
qed

lemma expected_ttest_row_Inr:
  "expected_ttest_row ttest data y f = Inr r \<longleftrightarrow>
     (\<exists>col. map_of data f = Some col
        \<and> r = \<lparr>Feature = f,
               t_statistic = fst (ttest True (partition_by_label col y 0) (partition_by_label col y 1)),
               p_value = snd (ttest True (partition_by_label col y 0) (partition_by_label col y 1))\<rparr>)"
  by (auto simp: expected_ttest_row_def and_then_eq_Inr get_column_Inr case_prod_beta)

lemma expected_rows_features:
  assumes "map (expected_ttest_row ttest data y) order = map Inr rs"
  shows "map Feature rs = order
    \<and> (\<forall>r \<in> set rs. \<exists>col. map_of data (Feature r) = Some col
          \<and> (t_statistic r, p_value r) =
              ttest True (partition_by_label col y 0) (partition_by_label col y 1))"
  using assms
proof (induction order arbitrary: rs)
  case Nil
  then show ?case by simp
next
  case (Cons f order)
  then obtain r rs' where rs: "rs = r # rs'" and r: "expected_ttest_row ttest data y f = Inr r"
    and rest: "map (expected_ttest_row ttest data y) order = map Inr rs'"
    by (cases rs) auto
  from r obtain col where "map_of data f = Some col" "Feature r = f"
    "(t_statistic r, p_value r) = ttest True (partition_by_label col y 0) (partition_by_label col y 1)"
    by (auto simp: expected_ttest_row_Inr)
  with Cons.IH [OF rest] rs show ?case
    by simp
qed

lemma verify_t_test_features:
  assumes "map_of data ''label'' = Some y" and "set order \<subseteq> set (column_names data)"
  shows "\<exists>df. verify_t_test ttest data order = Inr df \<and> map Feature (rows df) = order"
proof -
  from verify_t_test_total [OF assms] obtain rs
    where rs: "map (expected_ttest_row ttest data y) order = map Inr rs"
      and run: "verify_t_test ttest data order = Inr (DataFrame ttest_columns rs)"
    by blast
  from expected_rows_features [OF rs] run show ?thesis
    by simp
qed

text \<open>
  Claim C5. For every feature of the intersection the validator splits the feature's
  raw values (the column of the data as loaded, never standardized) into the samples
  with label 0 and the samples with label 1, and calls \<^verbatim>\<open>ttest_ind\<close> on the two
  groups with \<^verbatim>\<open>equal_var=True\<close>: the independent two-sample test in its Student
  variant, with the equal-variance assumption. The pair the call returns is the
  feature's t-statistic and p-value. With a test function that keeps scipy's contract
  for this variant, the t-statistic emitted for two regular groups is Student's
  pooled-variance statistic of the label-0 group against the label-1 group.
\<close>

theorem validator_student_t_test:
  assumes "map_of data ''label'' = Some y" and "set order \<subseteq> set (column_names data)"
    and "student_contract ttest"
  shows "\<exists>df. verify_t_test ttest data order = Inr df \<and> map Feature (rows df) = order
    \<and> (\<forall>r \<in> set (rows df). \<exists>col. map_of data (Feature r) = Some col
          \<and> (t_statistic r, p_value r) =
              ttest True (partition_by_label col y 0) (partition_by_label col y 1)
          \<and> (regular_samples (partition_by_label col y 0) (partition_by_label col y 1) \<longrightarrow>
               t_statistic r = Finite (student_t_statistic
                 (partition_by_label col y 0) (partition_by_label col y 1))))"
proof -
  from verify_t_test_total [OF assms(1,2)] obtain rs
    where rs: "map (expected_ttest_row ttest data y) order = map Inr rs"
      and run: "verify_t_test ttest data order = Inr (DataFrame ttest_columns rs)"
    by blast
  note each = expected_rows_features [OF rs]
  have "\<exists>col. map_of data (Feature r) = Some col
          \<and> (t_statistic r, p_value r) =
              ttest True (partition_by_label col y 0) (partition_by_label col y 1)
          \<and> (regular_samples (partition_by_label col y 0) (partition_by_label col y 1) \<longrightarrow>
               t_statistic r = Finite (student_t_statistic
                 (partition_by_label col y 0) (partition_by_label col y 1)))"
    if "r \<in> set rs" for r
  proof -
    from each that obtain col where col: "map_of data (Feature r) = Some col"
      and pair: "(t_statistic r, p_value r) =
              ttest True (partition_by_label col y 0) (partition_by_label col y 1)"
      by blast
    from pair have "t_statistic r
        = fst (ttest True (partition_by_label col y 0) (partition_by_label col y 1))"
      by (metis fst_conv)
    with assms(3) have "regular_samples (partition_by_label col y 0) (partition_by_label col y 1) \<longrightarrow>
        t_statistic r = Finite (student_t_statistic
          (partition_by_label col y 0) (partition_by_label col y 1))"
      by (simp add: student_contract_def)
    with col pair show ?thesis
      by blast
  qed
  with each run show ?thesis
    by simp
qed

theorem validator_student_t_test_witness:
  "student_contract
     (\<lambda>equal_var a b. if equal_var \<and> regular_samples a b
        then (Finite (student_t_statistic a b), Finite 0) else (NaN, NaN))
   \<and> partition_by_label [0, 5, 2, 5] [0, 1, 0, 1] 0 = [0, 2]
   \<and> partition_by_label [0, 5, 2, 5] [0, 1, 0, 1] 1 = [5, 5]
   \<and> regular_samples [0, 2] [5, 5]
   \<and> student_t_statistic [0, 2] [5, 5] = - 4
   \<and> verify_t_test
        (\<lambda>equal_var a b. if equal_var \<and> regular_samples a b
           then (Finite (student_t_statistic a b), Finite 0) else (NaN, NaN))
        [(''g1'', [0, 5, 2, 5]), (''label'', [0, 1, 0, 1])] [''g1'']
      = Inr \<lparr>columns = [''Feature'', ''t-statistic'', ''p-value''],
             rows = [\<lparr>Feature = ''g1'', t_statistic = Finite (- 4), p_value = Finite 0\<rparr>]\<rparr>"
proof -
  define ttest :: "bool \<Rightarrow> real list \<Rightarrow> real list \<Rightarrow> float64 \<times> float64"
    where "ttest = (\<lambda>equal_var a b. if equal_var \<and> regular_samples a b
        then (Finite (student_t_statistic a b), Finite 0) else (NaN, NaN))"
  define data :: frame where "data = [(''g1'', [0, 5, 2, 5]), (''label'', [0, 1, 0, 1])]"
  have contract: "student_contract ttest"
    by (simp add: student_contract_def ttest_def)
  have l: "map_of data ''label'' = Some [0, 1, 0, 1]"
    by (simp add: data_def)
  have col: "map_of data ''g1'' = Some [0, 5, 2, 5]"
    by (simp add: data_def)
  have c: "set [''g1''] \<subseteq> set (column_names data)"
    by (simp add: data_def column_names_def)
  have g0: "partition_by_label [0, 5, 2, 5] [0, 1, 0, 1] 0 = [0, 2]"
    and g1: "partition_by_label [0, 5, 2, 5] [0, 1, 0, 1] 1 = [5, 5]"
    by (simp_all add: partition_by_label_def)
  have pooled: "pooled_variance [0, 2] [5, 5] = 1"
    by (simp add: pooled_variance_def squared_deviations_def sample_mean_def power2_eq_square)
  have regular: "regular_samples [0, 2] [5, 5]"
    by (simp add: regular_samples_def pooled)
  have t: "student_t_statistic [0, 2] [5, 5] = - 4"
    by (simp add: student_t_statistic_def pooled sample_mean_def)
  have run: "verify_t_test ttest data [''g1'']
      = Inr \<lparr>columns = [''Feature'', ''t-statistic'', ''p-value''],
             rows = [\<lparr>Feature = ''g1'', t_statistic = Finite (- 4), p_value = Finite 0\<rparr>]\<rparr>"
    by (simp add: verify_t_test_def select_features_and_target_def drop_column_def column_names_def
        get_column_def set_column_def ttest_row_of_def label_group_def filter_rows_def
        DataFrame_def ttest_columns_def data_def ttest_def regular t)
  have "\<exists>df. verify_t_test ttest data [''g1''] = Inr df \<and> map Feature (rows df) = [''g1'']
    \<and> (\<forall>r \<in> set (rows df). t_statistic r = Finite (- 4))"
    using validator_student_t_test [OF l c contract] col
    by (auto simp: g0 g1 regular t)
  then show ?thesis
    using contract g0 g1 regular t run unfolding ttest_def data_def by (intro conjI)
qed

lemma wf_frame_column_length:
  assumes "wf_frame df" and "map_of df n = Some col"
  shows "length col = n_rows df"
proof -
  from assms(2) have "(n, col) \<in> set df"
    by (rule map_of_SomeD)
  with assms(1) show ?thesis
    by (auto simp: wf_frame_def list_all_iff)
qed

lemma column_names_filter_rows [simp]: "column_names (filter_rows df keep) = column_names df"
  by (simp add: column_names_def filter_rows_def comp_def)

lemma partition_binary_samples:
  assumes "length col = length y" and "k = 0 \<or> k = 1"
  shows "partition_by_label
           (map fst (filter snd (zip col (map (\<lambda>l. l = 0 \<or> l = 1) y))))
           (map fst (filter snd (zip y (map (\<lambda>l. l = 0 \<or> l = 1) y)))) k
         = partition_by_label col y k"
  using assms
  by (induction col y rule: list_induct2) (auto simp: partition_by_label_def)

lemma expected_ttest_row_binary_samples:
  assumes "wf_frame data" and "map_of data ''label'' = Some y"
  shows "expected_ttest_row ttest (binary_samples data)
           (map fst (filter snd (zip y (map (\<lambda>l. l = 0 \<or> l = 1) y)))) f
         = expected_ttest_row ttest data y f"
proof (cases "map_of data f")
  case None
  with assms(2) show ?thesis
    by (simp add: expected_ttest_row_def binary_samples_def get_column_def map_of_filter_rows)
next
  case (Some col)
  have "length col = length y"
    using wf_frame_column_length [OF assms(1)] Some assms(2) by simp
  with Some assms(2) show ?thesis
    by (simp add: expected_ttest_row_def binary_samples_def get_column_def map_of_filter_rows
        partition_binary_samples)
qed

text \<open>
  Claim C10. The validator's test for a feature is computed only over the samples
  whose label is 0 or 1: a sample with any other label is in neither group, so that
  removing all such samples from the data leaves the result unchanged; and the cell
  raises no error when the label column is not binary.
\<close>

theorem validator_ignores_other_labels:
  assumes "wf_frame data" and "map_of data ''label'' = Some y"
    and "set order \<subseteq> set (column_names data)"
  shows "(\<exists>df. verify_t_test ttest data order = Inr df)
       \<and> verify_t_test ttest (binary_samples data) order = verify_t_test ttest data order"
proof -
  let ?y' = "map fst (filter snd (zip y (map (\<lambda>l. l = 0 \<or> l = 1) y)))"
  from verify_t_test_total [OF assms(2,3)] obtain rs
    where rs: "map (expected_ttest_row ttest data y) order = map Inr rs"
      and run: "verify_t_test ttest data order = Inr (DataFrame ttest_columns rs)"
    by blast
  have label': "map_of (binary_samples data) ''label'' = Some ?y'"
    using assms(2) by (simp add: binary_samples_def map_of_filter_rows)
  have names': "set order \<subseteq> set (column_names (binary_samples data))"
    using assms(2,3) by (simp add: binary_samples_def)
  have "expected_ttest_row ttest (binary_samples data) ?y' = expected_ttest_row ttest data y"
    by (rule ext) (rule expected_ttest_row_binary_samples [OF assms(1,2)])
  with rs have "map (expected_ttest_row ttest (binary_samples data) ?y') order = map Inr rs"
    by (simp only:)
  then have "verify_t_test ttest (binary_samples data) order = Inr (DataFrame ttest_columns rs)"
    by (auto simp: verify_t_test_Inr [OF label' names'])
  with run show ?thesis
    by simp
qed

theorem validator_ignores_other_labels_witness:
  "wf_frame [(''g1'', [1, 2, 3, 4]), (''label'', [0, 1, 0, 2])]
   \<and> binary_samples [(''g1'', [1, 2, 3, 4]), (''label'', [0, 1, 0, 2])]
        = [(''g1'', [1, 2, 3]), (''label'', [0, 1, 0])]
   \<and> verify_t_test (\<lambda>equal_var a b. (Finite (sum_list a - sum_list b), Finite (real (length a + length b))))
        [(''g1'', [1, 2, 3]), (''label'', [0, 1, 0])] [''g1'']
      = verify_t_test (\<lambda>equal_var a b. (Finite (sum_list a - sum_list b), Finite (real (length a + length b))))
        [(''g1'', [1, 2, 3, 4]), (''label'', [0, 1, 0, 2])] [''g1'']
   \<and> verify_t_test (\<lambda>equal_var a b. (Finite (sum_list a - sum_list b), Finite (real (length a + length b))))
        [(''g1'', [1, 2, 3, 4]), (''label'', [0, 1, 0, 2])] [''g1'']
      = Inr \<lparr>columns = [''Feature'', ''t-statistic'', ''p-value''],
             rows = [\<lparr>Feature = ''g1'', t_statistic = Finite (2), p_value = Finite 3\<rparr>]\<rparr>"
proof -
  let ?ttest = "\<lambda>(equal_var :: bool) (a :: real list) (b :: real list). (Finite (sum_list a - sum_list b), Finite (real (length a + length b)))"
  let ?data = "[(''g1'', [1, 2, 3, 4]), (''label'', [0, 1, 0, 2 :: real])]"
  have w: "wf_frame ?data"
    by (simp add: wf_frame_def column_names_def n_rows_def)
  have l: "map_of ?data ''label'' = Some [0, 1, 0, 2]"
    by simp
  have c: "set [''g1''] \<subseteq> set (column_names ?data)"
    by (simp add: column_names_def)
  have b: "binary_samples ?data = [(''g1'', [1, 2, 3]), (''label'', [0, 1, 0])]"
    by (simp add: binary_samples_def filter_rows_def)
  have r: "verify_t_test ?ttest ?data [''g1'']
      = Inr \<lparr>columns = [''Feature'', ''t-statistic'', ''p-value''],
             rows = [\<lparr>Feature = ''g1'', t_statistic = Finite (2), p_value = Finite 3\<rparr>]\<rparr>"
    by (simp add: verify_t_test_def select_features_and_target_def drop_column_def column_names_def
        get_column_def set_column_def ttest_row_of_def label_group_def filter_rows_def
        DataFrame_def ttest_columns_def)
  from validator_ignores_other_labels [OF w l c, of ?ttest] w b r show ?thesis
    by simp
qed

section \<open>The intersection and the two output tables\<close>

lemma enumerates_length: "enumerates xs A \<Longrightarrow> length xs = card A"
  by (auto simp: enumerates_def distinct_card)

text \<open>
  Claim C3. The intersection computed in cell 10 is a subset of each of the three
  selected feature sets and holds exactly the names present in all three. It is a set:
  a name has no multiplicity in it, and every enumeration of it (what
  \<^verbatim>\<open>list(intersection_features)\<close> and the loops see) has no name twice.
\<close>

theorem intersection_exact:
  "intersection_features lasso_t rf_t svmrfe_t \<subseteq> feature_set lasso_t
   \<and> intersection_features lasso_t rf_t svmrfe_t \<subseteq> feature_set rf_t
   \<and> intersection_features lasso_t rf_t svmrfe_t \<subseteq> feature_set svmrfe_t
   \<and> (f \<in> intersection_features lasso_t rf_t svmrfe_t \<longleftrightarrow>
          f \<in> feature_set lasso_t \<and> f \<in> feature_set rf_t \<and> f \<in> feature_set svmrfe_t)
   \<and> finite (intersection_features lasso_t rf_t svmrfe_t)
   \<and> (enumerates order (intersection_features lasso_t rf_t svmrfe_t) \<longrightarrow>
          distinct order \<and> length order = card (intersection_features lasso_t rf_t svmrfe_t))"
proof -
  have "finite (feature_set lasso_t)"
    by (simp add: feature_set_def)
  then have "finite (intersection_features lasso_t rf_t svmrfe_t)"
    by (simp add: intersection_features_def)
  moreover have "enumerates order (intersection_features lasso_t rf_t svmrfe_t) \<longrightarrow>
      distinct order \<and> length order = card (intersection_features lasso_t rf_t svmrfe_t)"
    using enumerates_length [of order] by (auto simp: enumerates_def)
  ultimately show ?thesis
    by (auto simp: intersection_features_def)
qed

theorem intersection_exact_witness:
  "intersection_features [(''g2'', 1 / 2), (''g1'', 1 / 4 :: real)]
       [(''g2'', 3 / 4), (''g3'', 1 / 4 :: real)] [(''g3'', 2), (''g2'', 1), (''g1'', 1 :: int)]
     = {''g2''}
   \<and> enumerates [''g2''] (intersection_features [(''g2'', 1 / 2), (''g1'', 1 / 4 :: real)]
       [(''g2'', 3 / 4), (''g3'', 1 / 4 :: real)] [(''g3'', 2), (''g2'', 1), (''g1'', 1 :: int)])
   \<and> card (intersection_features [(''g2'', 1 / 2), (''g1'', 1 / 4 :: real)]
       [(''g2'', 3 / 4), (''g3'', 1 / 4 :: real)] [(''g3'', 2), (''g2'', 1), (''g1'', 1 :: int)]) = 1
   \<and> ''g1'' \<notin> intersection_features [(''g2'', 1 / 2), (''g1'', 1 / 4 :: real)]
       [(''g2'', 3 / 4), (''g3'', 1 / 4 :: real)] [(''g3'', 2), (''g2'', 1), (''g1'', 1 :: int)]"
proof -
  let ?I = "intersection_features [(''g2'', 1 / 2), (''g1'', 1 / 4 :: real)]
       [(''g2'', 3 / 4), (''g3'', 1 / 4 :: real)] [(''g3'', 2), (''g2'', 1), (''g1'', 1 :: int)]"
  have I: "?I = {''g2''}"
    by (auto simp: intersection_features_def feature_set_def)
  have e: "enumerates [''g2''] ?I"
    by (simp add: I enumerates_def)
  from intersection_exact [of "[(''g2'', 1 / 2), (''g1'', 1 / 4 :: real)]"
      "[(''g2'', 3 / 4), (''g3'', 1 / 4 :: real)]" "[(''g3'', 2), (''g2'', 1), (''g1'', 1 :: int)]"
      "''g1''" "[''g2'']"] e
  have "card ?I = 1" and "''g1'' \<notin> ?I"
    by (simp_all add: feature_set_def)
  with I e show ?thesis
    by simp
qed

text \<open>
  Claim C4. The scored table has exactly one row per feature of the intersection, and
  the three scores of a row are the feature's importance values in the Lasso, the
  random-forest and the SVM-RFE table; the t-test table has exactly one row per feature
  of the intersection too. The rows follow the order in which the set is iterated.
\<close>

theorem one_row_per_common_feature:
  assumes "enumerates order (intersection_features lasso_t rf_t svmrfe_t)"
    and "map_of data ''label'' = Some y"
    and "intersection_features lasso_t rf_t svmrfe_t \<subseteq> set (column_names data)"
  shows "\<exists>scored tested.
      compile_scores lasso_t rf_t svmrfe_t order = Inr scored
    \<and> verify_t_test ttest data order = Inr tested
    \<and> length (rows scored) = card (intersection_features lasso_t rf_t svmrfe_t)
    \<and> map Feature (rows scored) = order
    \<and> (\<forall>r \<in> set (rows scored).
          map_of lasso_t (Feature r) = Some (Lasso r)
        \<and> map_of rf_t (Feature r) = Some (Random_Forest r)
        \<and> map_of svmrfe_t (Feature r) = Some (SVM_RFE r))
    \<and> length (rows tested) = card (intersection_features lasso_t rf_t svmrfe_t)
    \<and> map Feature (rows tested) = order"
proof -
  have order: "set order = intersection_features lasso_t rf_t svmrfe_t"
    and len: "length order = card (intersection_features lasso_t rf_t svmrfe_t)"
    using assms(1) by (simp_all add: enumerates_length) (simp add: enumerates_def)
  from order have "set order \<subseteq> intersection_features lasso_t rf_t svmrfe_t"
    by simp
  from compile_scores_total [OF this] obtain scored
    where scored: "compile_scores lasso_t rf_t svmrfe_t order = Inr scored"
    by blast
  then obtain rs where rs: "map (score_row lasso_t rf_t svmrfe_t) order = map Inr rs"
    and "scored = DataFrame scored_columns rs"
    by (auto simp: compile_scores_Inr)
  then have rows_s: "rows scored = rs"
    by simp
  note s = map_Inr_features [OF rs]
  have "set order \<subseteq> set (column_names data)"
    using order assms(3) by simp
  from verify_t_test_features [OF assms(2) this, of ttest] obtain tested
    where tested: "verify_t_test ttest data order = Inr tested"
      and names_t: "map Feature (rows tested) = order"
    by blast
  have "length (rows scored) = length order"
    using s rows_s by (metis length_map)
  moreover have "length (rows tested) = length order"
    using names_t by (metis length_map)
  ultimately show ?thesis
    using scored tested s rows_s names_t len by auto
qed

theorem one_row_per_common_feature_witness:
  "enumerates [''g2'', ''g1'']
     (intersection_features [(''g2'', 1 / 2), (''g1'', 1 / 4 :: real)]
        [(''g1'', 3 / 4), (''g2'', 1 / 4 :: real)] [(''g3'', 2), (''g2'', 1), (''g1'', 1 :: int)])
   \<and> compile_scores [(''g2'', 1 / 2), (''g1'', 1 / 4)] [(''g1'', 3 / 4), (''g2'', 1 / 4)]
        [(''g3'', 2), (''g2'', 1), (''g1'', 1)] [''g2'', ''g1'']
      = Inr \<lparr>columns = [''Feature'', ''Lasso'', ''Random Forest'', ''SVM-RFE''],
             rows = [\<lparr>Feature = ''g2'', Lasso = 1 / 2, Random_Forest = 1 / 4, SVM_RFE = 1\<rparr>,
                     \<lparr>Feature = ''g1'', Lasso = 1 / 4, Random_Forest = 3 / 4, SVM_RFE = 1\<rparr>]\<rparr>
   \<and> (\<exists>tested. verify_t_test (\<lambda>equal_var a b. (Finite (sum_list a - sum_list b), Finite (real (length a + length b))))
         [(''g1'', [1, 2, 3]), (''g2'', [5, 6, 7]), (''g3'', [0, 0, 0]), (''label'', [0, 1, 0])]
         [''g2'', ''g1''] = Inr tested
        \<and> length (rows tested) = 2 \<and> map Feature (rows tested) = [''g2'', ''g1''])"
proof -
  let ?L = "[(''g2'', 1 / 2), (''g1'', 1 / 4 :: real)]"
  let ?R = "[(''g1'', 3 / 4), (''g2'', 1 / 4 :: real)]"
  let ?S = "[(''g3'', 2), (''g2'', 1), (''g1'', 1 :: int)]"
  let ?data = "[(''g1'', [1, 2, 3]), (''g2'', [5, 6, 7]), (''g3'', [0, 0, 0]),
                (''label'', [0, 1, 0 :: real])]"
  have I: "intersection_features ?L ?R ?S = {''g2'', ''g1''}"
    by (auto simp: intersection_features_def feature_set_def)
  have e: "enumerates [''g2'', ''g1''] (intersection_features ?L ?R ?S)"
    by (simp add: I enumerates_def)
  have l: "map_of ?data ''label'' = Some [0, 1, 0]"
    by simp
  have c: "intersection_features ?L ?R ?S \<subseteq> set (column_names ?data)"
    by (simp add: I column_names_def)
  have s: "compile_scores ?L ?R ?S [''g2'', ''g1'']
      = Inr \<lparr>columns = [''Feature'', ''Lasso'', ''Random Forest'', ''SVM-RFE''],
             rows = [\<lparr>Feature = ''g2'', Lasso = 1 / 2, Random_Forest = 1 / 4, SVM_RFE = 1\<rparr>,
                     \<lparr>Feature = ''g1'', Lasso = 1 / 4, Random_Forest = 3 / 4, SVM_RFE = 1\<rparr>]\<rparr>"
    by (simp add: compile_scores_def score_row_def values0_def matching_values_def
        DataFrame_def scored_columns_def)
  from one_row_per_common_feature [OF e l c,
      of "\<lambda>equal_var a b. (Finite (sum_list a - sum_list b), Finite (real (length a + length b)))"] e s
  show ?thesis
    by (auto simp: I)
qed

text \<open>
  Claim C2, as amended. When the intersection is empty, neither cell raises, and both
  tables are the empty frame: no row and, because \<^verbatim>\<open>pd.DataFrame([])\<close> takes its
  columns from the dicts it is given, no column either. The two files are written
  without the column names \<^verbatim>\<open>Feature, Lasso, Random Forest, SVM-RFE\<close> and
  \<^verbatim>\<open>Feature, t-statistic, p-value\<close>.
\<close>

theorem empty_intersection_outputs:
  assumes "intersection_features lasso_t rf_t svmrfe_t = {}"
    and "enumerates order (intersection_features lasso_t rf_t svmrfe_t)"
    and "map_of data ''label'' = Some y"
  shows "compile_scores lasso_t rf_t svmrfe_t order = Inr \<lparr>columns = [], rows = []\<rparr>
       \<and> verify_t_test ttest data order = Inr \<lparr>columns = [], rows = []\<rparr>"
proof -
  from assms(1,2) have "order = []"
    by (simp add: enumerates_def)
  moreover have "select_features_and_target data
      = Inr (filter (\<lambda>c. fst c \<noteq> ''label'') data, y)"
    using assms(3) by (simp add: select_features_and_target_Inr)
  ultimately show ?thesis
    by (simp add: compile_scores_def verify_t_test_def DataFrame_def)
qed

theorem empty_intersection_outputs_witness:
  "intersection_features [(''g1'', 1 / 2 :: real)] [(''g2'', 1 / 4 :: real)]
       [(''g1'', 1), (''g2'', 1 :: int)] = {}
   \<and> enumerates [] (intersection_features [(''g1'', 1 / 2 :: real)] [(''g2'', 1 / 4 :: real)]
       [(''g1'', 1), (''g2'', 1 :: int)])
   \<and> compile_scores [(''g1'', 1 / 2)] [(''g2'', 1 / 4)] [(''g1'', 1), (''g2'', 1)] []
       = Inr \<lparr>columns = [], rows = []\<rparr>
   \<and> verify_t_test (\<lambda>equal_var a b. (Finite (sum_list a - sum_list b), Finite (real (length a + length b))))
       [(''g1'', [1, 2]), (''g2'', [3, 4]), (''label'', [0, 1])] []
       = Inr \<lparr>columns = [], rows = []\<rparr>"
proof -
  let ?L = "[(''g1'', 1 / 2 :: real)]"
  let ?R = "[(''g2'', 1 / 4 :: real)]"
  let ?S = "[(''g1'', 1), (''g2'', 1 :: int)]"
  let ?data = "[(''g1'', [1, 2]), (''g2'', [3, 4]), (''label'', [0, 1 :: real])]"
  have I: "intersection_features ?L ?R ?S = {}"
    by (simp add: intersection_features_def feature_set_def)
  have e: "enumerates [] (intersection_features ?L ?R ?S)"
    by (simp add: I enumerates_def)
  have l: "map_of ?data ''label'' = Some [0, 1]"
    by simp
  from empty_intersection_outputs [OF I e l] I e show ?thesis
    by simp
qed

text \<open>
  Claim C2 as stated fails: with an empty intersection the scored table and the t-test
  table do not have the columns the claim names.
\<close>

theorem empty_intersection_header_counterexample:
  "intersection_features [(''g1'', 1 / 2 :: real)] [(''g2'', 1 / 4 :: real)]
       [(''g1'', 1), (''g2'', 1 :: int)] = {}
   \<and> compile_scores [(''g1'', 1 / 2)] [(''g2'', 1 / 4)] [(''g1'', 1), (''g2'', 1)] []
       \<noteq> Inr \<lparr>columns = [''Feature'', ''Lasso'', ''Random Forest'', ''SVM-RFE''], rows = []\<rparr>
   \<and> verify_t_test (\<lambda>equal_var a b. (Finite (sum_list a - sum_list b), Finite (real (length a + length b))))
       [(''g1'', [1, 2]), (''g2'', [3, 4]), (''label'', [0, 1])] []
       \<noteq> Inr \<lparr>columns = [''Feature'', ''t-statistic'', ''p-value''], rows = []\<rparr>"
  by (simp add: intersection_features_def feature_set_def compile_scores_def verify_t_test_def
      select_features_and_target_def drop_column_def column_names_def get_column_def
      set_column_def DataFrame_def)

section \<open>The whole run\<close>

lemma run_Inr:
  "run lib data = Inr nb \<longleftrightarrow>
     (\<exists>X y scaled lfi rfi sfi scored tested.
        select_features_and_target data = Inr (X, y)
      \<and> StandardScaler_fit_transform lib X = Inr scaled
      \<and> lasso_ranking lib X y = Inr lfi
      \<and> rf_ranking lib X y = Inr rfi
      \<and> svmrfe_ranking lib X y = Inr sfi
      \<and> compile_scores (positive_importance lfi) (positive_importance rfi) (positive_importance sfi)
           (set_order lib (intersection_features (positive_importance lfi)
              (positive_importance rfi) (positive_importance sfi))) = Inr scored
      \<and> verify_t_test (ttest_ind lib) data
           (set_order lib (intersection_features (positive_importance lfi)
              (positive_importance rfi) (positive_importance sfi))) = Inr tested
      \<and> nb = \<lparr>X_scaled = scaled,
              lasso_feature_importance = positive_importance lfi,
              rf_feature_importance = positive_importance rfi,
              svmrfe_feature_importance = positive_importance sfi,
              common_features = intersection_features (positive_importance lfi)
                (positive_importance rfi) (positive_importance sfi),
              selected_features = scored,
              t_test_results_df = tested\<rparr>)"
  by (auto simp: run_def and_then_eq_Inr Let_def)

lemma feature_set_feature_importance:
  "feature_importance fs imp = Inr t \<Longrightarrow> feature_set t = set fs"
proof -
  assume "feature_importance fs imp = Inr t"
  then have len: "length fs = length imp" and t: "t = sort_values_desc (zip fs imp)"
    by (simp_all add: feature_importance_Inr)
  have "mset (map fst t) = mset fs"
    unfolding t using len by (rule features_sort_values_desc)
  then have "set (map fst t) = set fs"
    by (rule mset_eq_setD)
  then show ?thesis
    by (simp only: feature_set_def)
qed

lemma lasso_ranking_Inr:
  "lasso_ranking lib X y = Inr t \<longleftrightarrow>
     (\<exists>coef. Lasso_fit lib (1 / 100) X y = Inr coef
        \<and> feature_importance (column_names X) (map abs coef) = Inr t)"
  by (simp add: lasso_ranking_def and_then_eq_Inr)

lemma rf_ranking_Inr:
  "rf_ranking lib X y = Inr t \<longleftrightarrow>
     (\<exists>importance. RandomForestClassifier_fit lib 100 42 X y = Inr importance
        \<and> feature_importance (column_names X) importance = Inr t)"
  by (simp add: rf_ranking_def and_then_eq_Inr)

lemma svmrfe_ranking_Inr:
  "svmrfe_ranking lib X y = Inr t \<longleftrightarrow>
     (\<exists>ranking. RFE_SVC_fit lib 42 10 X y = Inr ranking
        \<and> feature_importance (column_names X) ranking = Inr t)"
  by (simp add: svmrfe_ranking_def and_then_eq_Inr)

lemma positive_importance_all:
  assumes "feature_importance fs ranking = Inr t" and "\<forall>r \<in> set ranking. (1::int) \<le> r"
  shows "positive_importance t = t"
proof -
  from assms(1) have "set t = set (zip fs ranking)"
    by (simp add: feature_importance_Inr set_sort_values_desc)
  then have "snd r \<in> set ranking" if "r \<in> set t" for r
    using that by (cases r) (auto dest: set_zip_rightD)
  with assms(2) have "\<forall>r \<in> set t. 0 < snd r"
    by fastforce
  then show ?thesis
    by (simp add: positive_importance_def)
qed

lemma features_without_label:
  "set (column_names (filter (\<lambda>c. fst c \<noteq> ''label'') data)) = set (column_names data) - {''label''}"
  by (auto simp: column_names_def)

text \<open>
  Claim C1. The features the SVM-RFE cell retains (rank \<open>> 0\<close>) are all the features
  of the dataset, not only those of rank 1, because the ranks that RFE returns start
  at 1 (the hypothesis on \<open>RFE_SVC_fit\<close>: scikit-learn's contract for
  \<^verbatim>\<open>ranking_\<close>); so the intersection of the three sets is the intersection of
  the Lasso set and the random-forest set.
\<close>

theorem svmrfe_retains_every_feature:
  assumes "run lib data = Inr nb"
    and "\<forall>X y ranking. RFE_SVC_fit lib 42 10 X y = Inr ranking \<longrightarrow> (\<forall>r \<in> set ranking. 1 \<le> r)"
  shows "feature_set (svmrfe_feature_importance nb) = set (column_names data) - {''label''}
       \<and> common_features nb
           = feature_set (lasso_feature_importance nb) \<inter> feature_set (rf_feature_importance nb)"
proof -
  from assms(1) obtain X y lfi rfi sfi
    where split: "select_features_and_target data = Inr (X, y)"
      and lfi: "lasso_ranking lib X y = Inr lfi"
      and sfi: "svmrfe_ranking lib X y = Inr sfi"
      and l: "lasso_feature_importance nb = positive_importance lfi"
      and r: "rf_feature_importance nb = positive_importance rfi"
      and s: "svmrfe_feature_importance nb = positive_importance sfi"
      and c: "common_features nb = intersection_features (positive_importance lfi)
                (positive_importance rfi) (positive_importance sfi)"
    by (auto simp: run_Inr)
  from sfi obtain ranking where fit: "RFE_SVC_fit lib 42 10 X y = Inr ranking"
    and t: "feature_importance (column_names X) ranking = Inr sfi"
    by (auto simp: svmrfe_ranking_Inr)
  from fit assms(2) have "\<forall>r \<in> set ranking. 1 \<le> r"
    by blast
  with t have all: "positive_importance sfi = sfi"
    by (rule positive_importance_all)
  have X: "set (column_names X) = set (column_names data) - {''label''}"
    using split by (simp add: select_features_and_target_Inr features_without_label)
  have svm: "feature_set (positive_importance sfi) = set (column_names X)"
    using t all by (simp add: feature_set_feature_importance)
  from lfi have "feature_set lfi = set (column_names X)"
    by (auto simp: lasso_ranking_Inr feature_set_feature_importance)
  with feature_set_positive [of lfi] have "feature_set (positive_importance lfi) \<subseteq> set (column_names X)"
    by simp
  with svm have "intersection_features (positive_importance lfi) (positive_importance rfi)
      (positive_importance sfi) = feature_set (positive_importance lfi) \<inter> feature_set (positive_importance rfi)"
    by (auto simp: intersection_features_def)
  with svm X l r s c show ?thesis
    by simp
qed

theorem svmrfe_retains_every_feature_witness:
  "\<exists>nb. run \<lparr>StandardScaler_fit_transform = (\<lambda>X. Inr (map snd X)),
              Lasso_fit = (\<lambda>alpha X y. Inr [1 / 2, - (1 / 4), 0, 0, 0, 0, 0, 0, 0, 0, 0, 1 / 8]),
              RandomForestClassifier_fit =
                (\<lambda>n seed X y. Inr [1 / 2, 0, 0, 0, 0, 0, 0, 0, 0, 0, 1 / 4, 1 / 4]),
              RFE_SVC_fit = (\<lambda>seed n X y. Inr [1, 1, 1, 1, 1, 1, 1, 1, 1, 1, 2, 3]),
              ttest_ind = (\<lambda>equal_var a b. (Finite (sum_list a - sum_list b), Finite (sum_list a + sum_list b))),
              set_order = (\<lambda>S. filter (\<lambda>f. f \<in> S) [''g12'', ''g01''])\<rparr>
           [(''g01'', [1, 2]), (''g02'', [1, 2]), (''g03'', [1, 2]), (''g04'', [1, 2]),
            (''g05'', [1, 2]), (''g06'', [1, 2]), (''g07'', [1, 2]), (''g08'', [1, 2]),
            (''g09'', [1, 2]), (''g10'', [1, 2]), (''g11'', [1, 2]), (''g12'', [3, 5]),
            (''label'', [0, 1])] = Inr nb
      \<and> svmrfe_feature_importance nb =
           [(''g12'', 3), (''g11'', 2), (''g01'', 1), (''g02'', 1), (''g03'', 1), (''g04'', 1),
            (''g05'', 1), (''g06'', 1), (''g07'', 1), (''g08'', 1),
            (''g09'', 1), (''g10'', 1)]
      \<and> feature_set (svmrfe_feature_importance nb) =
           {''g01'', ''g02'', ''g03'', ''g04'', ''g05'', ''g06'', ''g07'', ''g08'', ''g09'',
            ''g10'', ''g11'', ''g12''}
      \<and> feature_set (lasso_feature_importance nb) = {''g01'', ''g02'', ''g12''}
      \<and> feature_set (rf_feature_importance nb) = {''g01'', ''g11'', ''g12''}
      \<and> common_features nb = {''g01'', ''g12''}"
proof -
  let ?lib = "\<lparr>StandardScaler_fit_transform = (\<lambda>X. Inr (map snd X)),
              Lasso_fit = (\<lambda>alpha X y. Inr [1 / 2, - (1 / 4), 0, 0, 0, 0, 0, 0, 0, 0, 0, 1 / 8]),
              RandomForestClassifier_fit =
                (\<lambda>n seed X y. Inr [1 / 2, 0, 0, 0, 0, 0, 0, 0, 0, 0, 1 / 4, 1 / 4]),
              RFE_SVC_fit = (\<lambda>seed n X y. Inr [1, 1, 1, 1, 1, 1, 1, 1, 1, 1, 2, 3]),
              ttest_ind = (\<lambda>(equal_var :: bool) (a :: real list) (b :: real list). (Finite (sum_list a - sum_list b), Finite (sum_list a + sum_list b))),
              set_order = (\<lambda>S. filter (\<lambda>f. f \<in> S) [''g12'', ''g01''])\<rparr>"
  let ?data = "[(''g01'', [1, 2]), (''g02'', [1, 2]), (''g03'', [1, 2]), (''g04'', [1, 2]),
            (''g05'', [1, 2]), (''g06'', [1, 2]), (''g07'', [1, 2]), (''g08'', [1, 2]),
            (''g09'', [1, 2]), (''g10'', [1, 2]), (''g11'', [1, 2]), (''g12'', [3, 5]),
            (''label'', [0, 1 :: real])]"
  have split: "select_features_and_target ?data = Inr (butlast ?data, [0, 1])"
    by (simp add: select_features_and_target_def drop_column_def column_names_def get_column_def)
  have names: "column_names (butlast ?data) = [''g01'', ''g02'', ''g03'', ''g04'', ''g05'', ''g06'',
      ''g07'', ''g08'', ''g09'', ''g10'', ''g11'', ''g12'']"
    by (simp add: column_names_def)
  have lasso: "lasso_ranking ?lib (butlast ?data) [0, 1] =
      Inr [(''g01'', 1 / 2), (''g02'', 1 / 4), (''g12'', 1 / 8), (''g03'', 0), (''g04'', 0), (''g05'', 0), (''g06'', 0), (''g07'', 0), (''g08'', 0), (''g09'', 0), (''g10'', 0), (''g11'', 0)]"
    unfolding lasso_ranking_def names
    by (simp add: feature_importance_def importance_frame_def sort_values_desc_def)
  have rf: "rf_ranking ?lib (butlast ?data) [0, 1] =
      Inr [(''g01'', 1 / 2), (''g11'', 1 / 4), (''g12'', 1 / 4), (''g02'', 0), (''g03'', 0), (''g04'', 0), (''g05'', 0), (''g06'', 0), (''g07'', 0), (''g08'', 0), (''g09'', 0), (''g10'', 0)]"
    unfolding rf_ranking_def names
    by (simp add: feature_importance_def importance_frame_def sort_values_desc_def)
  have svm: "svmrfe_ranking ?lib (butlast ?data) [0, 1] =
      Inr [(''g12'', 3), (''g11'', 2), (''g01'', 1), (''g02'', 1), (''g03'', 1), (''g04'', 1),
            (''g05'', 1), (''g06'', 1), (''g07'', 1), (''g08'', 1),
            (''g09'', 1), (''g10'', 1)]"
    unfolding svmrfe_ranking_def names
    by (simp add: feature_importance_def importance_frame_def sort_values_desc_def)
  have common: "intersection_features
      [(''g01'', 1 / 2), (''g02'', 1 / 4), (''g12'', 1 / 8 :: real)]
      [(''g01'', 1 / 2), (''g11'', 1 / 4), (''g12'', 1 / 4 :: real)]
      [(''g12'', 3), (''g11'', 2), (''g01'', 1), (''g02'', 1), (''g03'', 1), (''g04'', 1),
            (''g05'', 1), (''g06'', 1), (''g07'', 1), (''g08'', 1), (''g09'', 1), (''g10'', 1 :: int)]
      = {''g01'', ''g12''}"
    by (auto simp: intersection_features_def feature_set_def)
  have "\<exists>nb. run ?lib ?data = Inr nb"
    unfolding run_def split and_then_Inr prod.case lasso rf svm Let_def
    by (simp add: positive_importance_def common compile_scores_def score_row_def
        values0_def matching_values_def verify_t_test_def split [simplified] get_column_def
        ttest_row_of_def label_group_def set_column_def column_names_def filter_rows_def)
  then obtain nb where nb: "run ?lib ?data = Inr nb" ..
  have rfe: "\<forall>X y ranking. RFE_SVC_fit ?lib 42 10 X y = Inr ranking \<longrightarrow> (\<forall>r \<in> set ranking. 1 \<le> r)"
    by auto
  from nb have s: "svmrfe_feature_importance nb =
           [(''g12'', 3), (''g11'', 2), (''g01'', 1), (''g02'', 1), (''g03'', 1), (''g04'', 1),
            (''g05'', 1), (''g06'', 1), (''g07'', 1), (''g08'', 1),
            (''g09'', 1), (''g10'', 1)]"
    and l: "lasso_feature_importance nb = [(''g01'', 1 / 2), (''g02'', 1 / 4), (''g12'', 1 / 8)]"
    and r: "rf_feature_importance nb = [(''g01'', 1 / 2), (''g11'', 1 / 4), (''g12'', 1 / 4)]"
    unfolding run_Inr split sum.inject prod.inject
    by (auto simp only: lasso rf svm sum.inject notebook.simps)
      (simp_all add: positive_importance_def)
  have "feature_set (lasso_feature_importance nb) = {''g01'', ''g02'', ''g12''}"
    and "feature_set (rf_feature_importance nb) = {''g01'', ''g11'', ''g12''}"
    by (auto simp: l r feature_set_def)
  with svmrfe_retains_every_feature [OF nb rfe] nb s show ?thesis
    by (auto simp: column_names_def)
qed

lemma ranking_other_scaler [simp]:
  "lasso_ranking (lib\<lparr>StandardScaler_fit_transform := scale\<rparr>) = lasso_ranking lib"
  "rf_ranking (lib\<lparr>StandardScaler_fit_transform := scale\<rparr>) = rf_ranking lib"
  "svmrfe_ranking (lib\<lparr>StandardScaler_fit_transform := scale\<rparr>) = svmrfe_ranking lib"
  by (simp_all add: fun_eq_iff lasso_ranking_def rf_ranking_def svmrfe_ranking_def)

lemma run_other_scaler:
  assumes "run lib data = Inr nb" and "select_features_and_target data = Inr (X, y)"
    and "scale X = Inr scaled"
  shows "run (lib\<lparr>StandardScaler_fit_transform := scale\<rparr>) data = Inr (nb\<lparr>X_scaled := scaled\<rparr>)"
proof -
  from assms(1,2) obtain scaled0 lfi rfi sfi scored tested
    where "lasso_ranking lib X y = Inr lfi" "rf_ranking lib X y = Inr rfi"
      "svmrfe_ranking lib X y = Inr sfi"
      "compile_scores (positive_importance lfi) (positive_importance rfi) (positive_importance sfi)
           (set_order lib (intersection_features (positive_importance lfi)
              (positive_importance rfi) (positive_importance sfi))) = Inr scored"
      "verify_t_test (ttest_ind lib) data
           (set_order lib (intersection_features (positive_importance lfi)
              (positive_importance rfi) (positive_importance sfi))) = Inr tested"
      "nb = \<lparr>X_scaled = scaled0,
              lasso_feature_importance = positive_importance lfi,
              rf_feature_importance = positive_importance rfi,
              svmrfe_feature_importance = positive_importance sfi,
              common_features = intersection_features (positive_importance lfi)
                (positive_importance rfi) (positive_importance sfi),
              selected_features = scored,
              t_test_results_df = tested\<rparr>"
    by (auto simp: run_Inr)
  with assms(2,3) show ?thesis
    by (simp add: run_Inr)
qed

text \<open>
  Claim C6. Each selector is fitted on \<open>X\<close> and \<open>y\<close> as cell 3 takes them from the
  loaded data: the unstandardized feature columns and the label column. The matrix the
  Standardizer returns is read by no later cell: a run with any other Standardizer
  differs in the variable \<open>X_scaled\<close> only. The Standardizer is handed \<open>X\<close> alone, and
  the label column the selectors and the validator see is the one that was loaded.
\<close>

theorem selectors_fit_raw_data:
  assumes "run lib data = Inr nb" and "select_features_and_target data = Inr (X, y)"
  shows "X = filter (\<lambda>c. fst c \<noteq> ''label'') data \<and> map_of data ''label'' = Some y
     \<and> (\<exists>coef. Lasso_fit lib (1 / 100) X y = Inr coef
          \<and> lasso_feature_importance nb
               = positive_importance (sort_values_desc (zip (column_names X) (map abs coef))))
     \<and> (\<exists>importance. RandomForestClassifier_fit lib 100 42 X y = Inr importance
          \<and> rf_feature_importance nb
               = positive_importance (sort_values_desc (zip (column_names X) importance)))
     \<and> (\<exists>ranking. RFE_SVC_fit lib 42 10 X y = Inr ranking
          \<and> svmrfe_feature_importance nb
               = positive_importance (sort_values_desc (zip (column_names X) ranking)))
     \<and> (\<forall>scale scaled. scale X = Inr scaled \<longrightarrow>
          run (lib\<lparr>StandardScaler_fit_transform := scale\<rparr>) data = Inr (nb\<lparr>X_scaled := scaled\<rparr>))"
proof -
  from assms obtain lfi rfi sfi
    where lfi: "lasso_ranking lib X y = Inr lfi"
      and rfi: "rf_ranking lib X y = Inr rfi"
      and sfi: "svmrfe_ranking lib X y = Inr sfi"
      and l: "lasso_feature_importance nb = positive_importance lfi"
      and r: "rf_feature_importance nb = positive_importance rfi"
      and s: "svmrfe_feature_importance nb = positive_importance sfi"
    by (auto simp: run_Inr)
  from assms(2) have X: "X = filter (\<lambda>c. fst c \<noteq> ''label'') data"
    and y: "map_of data ''label'' = Some y"
    by (simp_all add: select_features_and_target_Inr)
  from lfi l have "\<exists>coef. Lasso_fit lib (1 / 100) X y = Inr coef
      \<and> lasso_feature_importance nb
           = positive_importance (sort_values_desc (zip (column_names X) (map abs coef)))"
    by (auto simp: lasso_ranking_Inr feature_importance_Inr)
  moreover from rfi r have "\<exists>importance. RandomForestClassifier_fit lib 100 42 X y = Inr importance
      \<and> rf_feature_importance nb
           = positive_importance (sort_values_desc (zip (column_names X) importance))"
    by (auto simp: rf_ranking_Inr feature_importance_Inr)
  moreover from sfi s have "\<exists>ranking. RFE_SVC_fit lib 42 10 X y = Inr ranking
      \<and> svmrfe_feature_importance nb
           = positive_importance (sort_values_desc (zip (column_names X) ranking))"
    by (auto simp: svmrfe_ranking_Inr feature_importance_Inr)
  moreover have "\<forall>scale scaled. scale X = Inr scaled \<longrightarrow>
      run (lib\<lparr>StandardScaler_fit_transform := scale\<rparr>) data = Inr (nb\<lparr>X_scaled := scaled\<rparr>)"
    using run_other_scaler [OF assms] by blast
  ultimately show ?thesis
    using X y by blast
qed

theorem selectors_fit_raw_data_witness:
  "\<exists>nb. run \<lparr>StandardScaler_fit_transform = (\<lambda>X. Inr (map snd X)),
              Lasso_fit = (\<lambda>alpha X y. if X = [(''g1'', [1, 2]), (''g2'', [4, 3])] \<and> y = [0, 1]
                             then Inr [- (1 / 2), 0] else Inl ValueError),
              RandomForestClassifier_fit = (\<lambda>n seed X y. Inr [3 / 4, 1 / 4]),
              RFE_SVC_fit = (\<lambda>seed n X y. Inr [1, 1]),
              ttest_ind = (\<lambda>equal_var a b. (Finite (sum_list a - sum_list b), Finite (sum_list a + sum_list b))),
              set_order = (\<lambda>S. filter (\<lambda>f. f \<in> S) [''g1'', ''g2''])\<rparr>
           [(''g1'', [1, 2]), (''g2'', [4, 3]), (''label'', [0, 1])] = Inr nb
      \<and> X_scaled nb = [[1, 2], [4, 3]]
      \<and> lasso_feature_importance nb = [(''g1'', 1 / 2)]
      \<and> run \<lparr>StandardScaler_fit_transform = (\<lambda>X. Inr []),
              Lasso_fit = (\<lambda>alpha X y. if X = [(''g1'', [1, 2]), (''g2'', [4, 3])] \<and> y = [0, 1]
                             then Inr [- (1 / 2), 0] else Inl ValueError),
              RandomForestClassifier_fit = (\<lambda>n seed X y. Inr [3 / 4, 1 / 4]),
              RFE_SVC_fit = (\<lambda>seed n X y. Inr [1, 1]),
              ttest_ind = (\<lambda>equal_var a b. (Finite (sum_list a - sum_list b), Finite (sum_list a + sum_list b))),
              set_order = (\<lambda>S. filter (\<lambda>f. f \<in> S) [''g1'', ''g2''])\<rparr>
           [(''g1'', [1, 2]), (''g2'', [4, 3]), (''label'', [0, 1])] = Inr (nb\<lparr>X_scaled := []\<rparr>)"
proof -
  define lib where "lib = \<lparr>StandardScaler_fit_transform = (\<lambda>X. Inr (map snd X)),
              Lasso_fit = (\<lambda>alpha X y. if X = [(''g1'', [1, 2]), (''g2'', [4, 3])] \<and> y = [0, 1]
                             then Inr [- (1 / 2), 0] else Inl ValueError),
              RandomForestClassifier_fit = (\<lambda>n seed X y. Inr [3 / 4, 1 / 4]),
              RFE_SVC_fit = (\<lambda>seed n X y. Inr [1, 1]),
              ttest_ind = (\<lambda>(equal_var :: bool) (a :: real list) (b :: real list). (Finite (sum_list a - sum_list b), Finite (sum_list a + sum_list b))),
              set_order = (\<lambda>S. filter (\<lambda>f. f \<in> S) [''g1'', ''g2''])\<rparr>"
  define data :: frame where "data = [(''g1'', [1, 2]), (''g2'', [4, 3]), (''label'', [0, 1])]"
  define X :: frame where "X = [(''g1'', [1, 2]), (''g2'', [4, 3])]"
  have split: "select_features_and_target data = Inr (X, [0, 1])"
    by (simp add: data_def X_def select_features_and_target_def drop_column_def column_names_def
        get_column_def)
  have fit: "Lasso_fit lib (1 / 100) X [0, 1] = Inr [- (1 / 2), 0]"
    by (simp add: lib_def X_def)
  have lasso: "lasso_ranking lib X [0, 1] = Inr [(''g1'', 1 / 2), (''g2'', 0)]"
    unfolding lasso_ranking_def fit
    by (simp add: X_def column_names_def feature_importance_def importance_frame_def
        sort_values_desc_def)
  have rf: "rf_ranking lib X [0, 1] = Inr [(''g1'', 3 / 4), (''g2'', 1 / 4)]"
    by (simp add: lib_def X_def rf_ranking_def column_names_def feature_importance_def
        importance_frame_def sort_values_desc_def)
  have svm: "svmrfe_ranking lib X [0, 1] = Inr [(''g1'', 1), (''g2'', 1)]"
    by (simp add: lib_def X_def svmrfe_ranking_def column_names_def feature_importance_def
        importance_frame_def sort_values_desc_def)
  have common: "intersection_features [(''g1'', 1 / 2 :: real)]
      [(''g1'', 3 / 4), (''g2'', 1 / 4 :: real)] [(''g1'', 1), (''g2'', 1 :: int)] = {''g1''}"
    by (auto simp: intersection_features_def feature_set_def)
  have order: "set_order lib {''g1''} = [''g1'']"
    by (simp add: lib_def)
  have scaled: "StandardScaler_fit_transform lib X = Inr [[1, 2], [4, 3]]"
    by (simp add: lib_def X_def)
  have tested: "\<exists>df. verify_t_test (ttest_ind lib) data [''g1''] = Inr df"
    unfolding verify_t_test_def split
    by (simp add: data_def get_column_def ttest_row_of_def label_group_def set_column_def
        column_names_def filter_rows_def case_prod_beta)
  have "\<exists>nb. run lib data = Inr nb \<and> X_scaled nb = [[1, 2], [4, 3]]"
    using tested unfolding run_def split and_then_Inr prod.case lasso rf svm scaled Let_def
    by (auto simp add: positive_importance_def common order compile_scores_def score_row_def
        values0_def matching_values_def)
  then obtain nb where nb: "run lib data = Inr nb" and sc: "X_scaled nb = [[1, 2], [4, 3]]"
    by blast
  note inst = selectors_fit_raw_data [OF nb split]
  from inst [THEN conjunct2, THEN conjunct2, THEN conjunct1]
  obtain coef where "Lasso_fit lib (1 / 100) X [0, 1] = Inr coef"
    and l: "lasso_feature_importance nb
               = positive_importance (sort_values_desc (zip (column_names X) (map abs coef)))"
    by (elim exE conjE)
  with fit have "coef = [- (1 / 2), 0]"
    by simp
  with l have lasso_t: "lasso_feature_importance nb = [(''g1'', 1 / 2)]"
    by (simp add: X_def column_names_def sort_values_desc_def positive_importance_def)
  note other = inst [THEN conjunct2, THEN conjunct2, THEN conjunct2, THEN conjunct2,
      THEN conjunct2, rule_format]
  have "run (lib\<lparr>StandardScaler_fit_transform := (\<lambda>X. Inr [])\<rparr>) data
      = Inr (nb\<lparr>X_scaled := []\<rparr>)"
    by (rule other) (rule refl)
  then have rerun: "run \<lparr>StandardScaler_fit_transform = (\<lambda>X. Inr []),
              Lasso_fit = (\<lambda>alpha X y. if X = [(''g1'', [1, 2]), (''g2'', [4, 3])] \<and> y = [0, 1]
                             then Inr [- (1 / 2), 0] else Inl ValueError),
              RandomForestClassifier_fit = (\<lambda>n seed X y. Inr [3 / 4, 1 / 4]),
              RFE_SVC_fit = (\<lambda>seed n X y. Inr [1, 1]),
              ttest_ind = (\<lambda>equal_var a b. (Finite (sum_list a - sum_list b), Finite (sum_list a + sum_list b))),
              set_order = (\<lambda>S. filter (\<lambda>f. f \<in> S) [''g1'', ''g2''])\<rparr> data
      = Inr (nb\<lparr>X_scaled := []\<rparr>)"
    by (simp only: lib_def libraries.simps)
  show ?thesis
    using nb sc lasso_t rerun unfolding lib_def data_def
    by (intro exI [of _ nb] conjI)
qed

section \<open>Two runs on the same data\<close>

lemma map_Inr_mset:
  assumes "map g xs = map Inr rs" and "map g ys = map Inr rs'" and "mset xs = mset ys"
  shows "mset rs = mset rs'"
proof -
  have "image_mset Inr (mset rs) = mset (map g xs)"
    by (simp only: assms(1) mset_map)
  also have "\<dots> = image_mset g (mset ys)"
    by (simp only: mset_map assms(3))
  also have "\<dots> = image_mset Inr (mset rs')"
    using assms(2) by (metis mset_map)
  finally show ?thesis
    by (metis inj_Inr multiset.inj_map injD)
qed

lemma enumerates_same_mset: "enumerates xs A \<Longrightarrow> enumerates ys A \<Longrightarrow> mset xs = mset ys"
  by (metis enumerates_def set_eq_iff_mset_eq_distinct)

lemma columns_DataFrame_mset:
  "mset rs = mset rs' \<Longrightarrow> columns (DataFrame keys rs) = columns (DataFrame keys rs')"
  by (auto simp: DataFrame_def)

lemma ranking_other_order [simp]:
  "lasso_ranking (lib\<lparr>set_order := ord\<rparr>) = lasso_ranking lib"
  "rf_ranking (lib\<lparr>set_order := ord\<rparr>) = rf_ranking lib"
  "svmrfe_ranking (lib\<lparr>set_order := ord\<rparr>) = svmrfe_ranking lib"
  by (simp_all add: fun_eq_iff lasso_ranking_def rf_ranking_def svmrfe_ranking_def)

text \<open>
  Claim C8, as amended. Two runs on the same data, with the same fits and the same
  test behind the library calls (fixed regularization strength and seeds), which differ
  at most in the order in which the interpreter iterates the set of common features,
  end with the same intersection set and the same selected tables, and with a scored
  table and a t-test table that have the same columns and the same rows up to the
  order of the rows.
\<close>

theorem rerun_same_up_to_row_order:
  assumes "run lib data = Inr nb" and "run (lib\<lparr>set_order := ord\<rparr>) data = Inr nb'"
    and "enumerates (set_order lib (common_features nb)) (common_features nb)"
    and "enumerates (ord (common_features nb')) (common_features nb')"
  shows "common_features nb' = common_features nb
       \<and> X_scaled nb' = X_scaled nb
       \<and> lasso_feature_importance nb' = lasso_feature_importance nb
       \<and> rf_feature_importance nb' = rf_feature_importance nb
       \<and> svmrfe_feature_importance nb' = svmrfe_feature_importance nb
       \<and> columns (selected_features nb') = columns (selected_features nb)
       \<and> mset (rows (selected_features nb')) = mset (rows (selected_features nb))
       \<and> columns (t_test_results_df nb') = columns (t_test_results_df nb)
       \<and> mset (rows (t_test_results_df nb')) = mset (rows (t_test_results_df nb))"
proof -
  from assms(1) obtain X y scaled lfi rfi sfi scored tested
    where split: "select_features_and_target data = Inr (X, y)"
      and sc: "StandardScaler_fit_transform lib X = Inr scaled"
      and lfi: "lasso_ranking lib X y = Inr lfi"
      and rfi: "rf_ranking lib X y = Inr rfi"
      and sfi: "svmrfe_ranking lib X y = Inr sfi"
      and scored: "compile_scores (positive_importance lfi) (positive_importance rfi)
           (positive_importance sfi)
           (set_order lib (intersection_features (positive_importance lfi)
              (positive_importance rfi) (positive_importance sfi))) = Inr scored"
      and tested: "verify_t_test (ttest_ind lib) data
           (set_order lib (intersection_features (positive_importance lfi)
              (positive_importance rfi) (positive_importance sfi))) = Inr tested"
      and nb: "nb = \<lparr>X_scaled = scaled,
              lasso_feature_importance = positive_importance lfi,
              rf_feature_importance = positive_importance rfi,
              svmrfe_feature_importance = positive_importance sfi,
              common_features = intersection_features (positive_importance lfi)
                (positive_importance rfi) (positive_importance sfi),
              selected_features = scored,
              t_test_results_df = tested\<rparr>"
    by (auto simp: run_Inr)
  define L where "L = positive_importance lfi"
  define R where "R = positive_importance rfi"
  define S where "S = positive_importance sfi"
  define I where "I = intersection_features L R S"
  have "run (lib\<lparr>set_order := ord\<rparr>) data = Inr nb' \<longleftrightarrow>
      (\<exists>scored' tested'. compile_scores L R S (ord I) = Inr scored'
        \<and> verify_t_test (ttest_ind lib) data (ord I) = Inr tested'
        \<and> nb' = \<lparr>X_scaled = scaled,
              lasso_feature_importance = L,
              rf_feature_importance = R,
              svmrfe_feature_importance = S,
              common_features = I,
              selected_features = scored',
              t_test_results_df = tested'\<rparr>)"
    unfolding run_def L_def R_def S_def I_def
    by (auto simp add: split sc lfi rfi sfi Let_def and_then_eq_Inr)
  with assms(2) obtain scored' tested'
    where scored': "compile_scores L R S (ord I) = Inr scored'"
      and tested': "verify_t_test (ttest_ind lib) data (ord I) = Inr tested'"
      and nb': "nb' = \<lparr>X_scaled = scaled,
              lasso_feature_importance = L,
              rf_feature_importance = R,
              svmrfe_feature_importance = S,
              common_features = I,
              selected_features = scored',
              t_test_results_df = tested'\<rparr>"
    by blast
  have "common_features nb = I" and "common_features nb' = I"
    unfolding nb nb' I_def L_def R_def S_def by simp_all
  with assms(3,4) have e: "enumerates (set_order lib I) I" and e': "enumerates (ord I) I"
    by simp_all
  have orders: "mset (ord I) = mset (set_order lib I)"
    using e' e by (rule enumerates_same_mset)
  from scored obtain rs where rs: "map (score_row L R S) (set_order lib I) = map Inr rs"
    and s: "scored = DataFrame scored_columns rs"
    by (auto simp: compile_scores_Inr I_def L_def R_def S_def)
  from scored' obtain rs' where rs': "map (score_row L R S) (ord I) = map Inr rs'"
    and s': "scored' = DataFrame scored_columns rs'"
    by (auto simp: compile_scores_Inr)
  have m: "mset rs' = mset rs"
    using rs' rs orders by (rule map_Inr_mset)
  have label: "map_of data ''label'' = Some y"
    using split by (simp add: select_features_and_target_Inr)
  have "feature_set lfi = set (column_names X)"
    using lfi by (auto simp: lasso_ranking_Inr feature_set_feature_importance)
  with feature_set_positive [of lfi] have "I \<subseteq> set (column_names X)"
    by (auto simp: I_def L_def intersection_features_def)
  also have "\<dots> \<subseteq> set (column_names data)"
    using split by (auto simp: select_features_and_target_Inr column_names_def)
  finally have sub: "set (set_order lib I) \<subseteq> set (column_names data)"
    and sub': "set (ord I) \<subseteq> set (column_names data)"
    using e e' by (simp_all add: enumerates_def)
  from tested obtain ts where ts: "map (expected_ttest_row (ttest_ind lib) data y) (set_order lib I) = map Inr ts"
    and t: "tested = DataFrame ttest_columns ts"
    unfolding I_def [symmetric] L_def [symmetric] R_def [symmetric] S_def [symmetric]
    by (auto simp: verify_t_test_Inr [OF label sub])
  from tested' obtain ts' where ts': "map (expected_ttest_row (ttest_ind lib) data y) (ord I) = map Inr ts'"
    and t': "tested' = DataFrame ttest_columns ts'"
    by (auto simp: verify_t_test_Inr [OF label sub'])
  have mt: "mset ts' = mset ts"
    using ts' ts orders by (rule map_Inr_mset)
  have "nb' = nb\<lparr>selected_features := DataFrame scored_columns rs',
      t_test_results_df := DataFrame ttest_columns ts'\<rparr>"
    unfolding nb nb' s' t' L_def R_def S_def I_def by simp
  then show ?thesis
    using m mt columns_DataFrame_mset [OF m] columns_DataFrame_mset [OF mt]
    unfolding nb s t by simp
qed

lemma example_run_order1:
  "run \<lparr>StandardScaler_fit_transform = (\<lambda>X. Inr (map snd X)),
         Lasso_fit = (\<lambda>alpha X y. Inr [1 / 2, 1 / 4]),
         RandomForestClassifier_fit = (\<lambda>n seed X y. Inr [3 / 4, 1 / 4]),
         RFE_SVC_fit = (\<lambda>seed n X y. Inr [1, 1]),
         ttest_ind = (\<lambda>equal_var a b. (Finite (sum_list a - sum_list b), Finite (sum_list a + sum_list b))),
         set_order = (\<lambda>S. filter (\<lambda>f. f \<in> S) [''g1'', ''g2''])\<rparr>
     [(''g1'', [1, 2]), (''g2'', [4, 3]), (''label'', [0, 1])]
   = Inr \<lparr>X_scaled = [[1, 2], [4, 3]],
           lasso_feature_importance = [(''g1'', 1 / 2), (''g2'', 1 / 4)],
           rf_feature_importance = [(''g1'', 3 / 4), (''g2'', 1 / 4)],
           svmrfe_feature_importance = [(''g1'', 1), (''g2'', 1)],
           common_features = {''g1'', ''g2''},
           selected_features =
             \<lparr>columns = [''Feature'', ''Lasso'', ''Random Forest'', ''SVM-RFE''],
              rows = [\<lparr>Feature = ''g1'', Lasso = 1 / 2, Random_Forest = 3 / 4, SVM_RFE = 1\<rparr>,
                      \<lparr>Feature = ''g2'', Lasso = 1 / 4, Random_Forest = 1 / 4, SVM_RFE = 1\<rparr>]\<rparr>,
           t_test_results_df =
             \<lparr>columns = [''Feature'', ''t-statistic'', ''p-value''],
              rows = [\<lparr>Feature = ''g1'', t_statistic = Finite (- 1), p_value = Finite 3\<rparr>,
                      \<lparr>Feature = ''g2'', t_statistic = Finite (1), p_value = Finite 7\<rparr>]\<rparr>\<rparr>"
proof -
  let ?lib = "\<lparr>StandardScaler_fit_transform = (\<lambda>X. Inr (map snd X)),
         Lasso_fit = (\<lambda>alpha X y. Inr [1 / 2, 1 / 4]),
         RandomForestClassifier_fit = (\<lambda>n seed X y. Inr [3 / 4, 1 / 4]),
         RFE_SVC_fit = (\<lambda>seed n X y. Inr [1, 1]),
         ttest_ind = (\<lambda>(equal_var :: bool) (a :: real list) (b :: real list). (Finite (sum_list a - sum_list b), Finite (sum_list a + sum_list b))),
         set_order = (\<lambda>S. filter (\<lambda>f. f \<in> S) [''g1'', ''g2''])\<rparr>"
  let ?data = "[(''g1'', [1, 2]), (''g2'', [4, 3]), (''label'', [0, 1 :: real])]"
  let ?X = "[(''g1'', [1, 2]), (''g2'', [4, 3 :: real])]"
  have split: "select_features_and_target ?data = Inr (?X, [0, 1])"
    by (simp add: select_features_and_target_def drop_column_def column_names_def get_column_def)
  have scaled: "StandardScaler_fit_transform ?lib ?X = Inr [[1, 2], [4, 3]]"
    by simp
  have lasso: "lasso_ranking ?lib ?X [0, 1] = Inr [(''g1'', 1 / 2), (''g2'', 1 / 4)]"
    by (simp add: lasso_ranking_def column_names_def feature_importance_def importance_frame_def
        sort_values_desc_def)
  have rf: "rf_ranking ?lib ?X [0, 1] = Inr [(''g1'', 3 / 4), (''g2'', 1 / 4)]"
    by (simp add: rf_ranking_def column_names_def feature_importance_def importance_frame_def
        sort_values_desc_def)
  have svm: "svmrfe_ranking ?lib ?X [0, 1] = Inr [(''g1'', 1), (''g2'', 1)]"
    by (simp add: svmrfe_ranking_def column_names_def feature_importance_def importance_frame_def
        sort_values_desc_def)
  have common: "intersection_features [(''g1'', 1 / 2), (''g2'', 1 / 4 :: real)]
      [(''g1'', 3 / 4), (''g2'', 1 / 4 :: real)] [(''g1'', 1), (''g2'', 1 :: int)] = {''g1'', ''g2''}"
    by (auto simp: intersection_features_def feature_set_def)
  have order: "set_order ?lib {''g1'', ''g2''} = [''g1'', ''g2'']"
    by simp
  show ?thesis
    unfolding run_def split and_then_Inr prod.case scaled lasso rf svm Let_def
    by (simp add: positive_importance_def common order compile_scores_def score_row_def
        values0_def matching_values_def verify_t_test_def split [simplified] get_column_def
        ttest_row_of_def label_group_def set_column_def column_names_def filter_rows_def
        DataFrame_def scored_columns_def ttest_columns_def)
qed

lemma example_run_order2:
  "run \<lparr>StandardScaler_fit_transform = (\<lambda>X. Inr (map snd X)),
         Lasso_fit = (\<lambda>alpha X y. Inr [1 / 2, 1 / 4]),
         RandomForestClassifier_fit = (\<lambda>n seed X y. Inr [3 / 4, 1 / 4]),
         RFE_SVC_fit = (\<lambda>seed n X y. Inr [1, 1]),
         ttest_ind = (\<lambda>equal_var a b. (Finite (sum_list a - sum_list b), Finite (sum_list a + sum_list b))),
         set_order = (\<lambda>S. filter (\<lambda>f. f \<in> S) [''g2'', ''g1''])\<rparr>
     [(''g1'', [1, 2]), (''g2'', [4, 3]), (''label'', [0, 1])]
   = Inr \<lparr>X_scaled = [[1, 2], [4, 3]],
           lasso_feature_importance = [(''g1'', 1 / 2), (''g2'', 1 / 4)],
           rf_feature_importance = [(''g1'', 3 / 4), (''g2'', 1 / 4)],
           svmrfe_feature_importance = [(''g1'', 1), (''g2'', 1)],
           common_features = {''g1'', ''g2''},
           selected_features =
             \<lparr>columns = [''Feature'', ''Lasso'', ''Random Forest'', ''SVM-RFE''],
              rows = [\<lparr>Feature = ''g2'', Lasso = 1 / 4, Random_Forest = 1 / 4, SVM_RFE = 1\<rparr>,
                      \<lparr>Feature = ''g1'', Lasso = 1 / 2, Random_Forest = 3 / 4, SVM_RFE = 1\<rparr>]\<rparr>,
           t_test_results_df =
             \<lparr>columns = [''Feature'', ''t-statistic'', ''p-value''],
              rows = [\<lparr>Feature = ''g2'', t_statistic = Finite (1), p_value = Finite 7\<rparr>,
                      \<lparr>Feature = ''g1'', t_statistic = Finite (- 1), p_value = Finite 3\<rparr>]\<rparr>\<rparr>"
proof -
  let ?lib = "\<lparr>StandardScaler_fit_transform = (\<lambda>X. Inr (map snd X)),
         Lasso_fit = (\<lambda>alpha X y. Inr [1 / 2, 1 / 4]),
         RandomForestClassifier_fit = (\<lambda>n seed X y. Inr [3 / 4, 1 / 4]),
         RFE_SVC_fit = (\<lambda>seed n X y. Inr [1, 1]),
         ttest_ind = (\<lambda>(equal_var :: bool) (a :: real list) (b :: real list). (Finite (sum_list a - sum_list b), Finite (sum_list a + sum_list b))),
         set_order = (\<lambda>S. filter (\<lambda>f. f \<in> S) [''g2'', ''g1''])\<rparr>"
  let ?data = "[(''g1'', [1, 2]), (''g2'', [4, 3]), (''label'', [0, 1 :: real])]"
  let ?X = "[(''g1'', [1, 2]), (''g2'', [4, 3 :: real])]"
  have split: "select_features_and_target ?data = Inr (?X, [0, 1])"
    by (simp add: select_features_and_target_def drop_column_def column_names_def get_column_def)
  have scaled: "StandardScaler_fit_transform ?lib ?X = Inr [[1, 2], [4, 3]]"
    by simp
  have lasso: "lasso_ranking ?lib ?X [0, 1] = Inr [(''g1'', 1 / 2), (''g2'', 1 / 4)]"
    by (simp add: lasso_ranking_def column_names_def feature_importance_def importance_frame_def
        sort_values_desc_def)
  have rf: "rf_ranking ?lib ?X [0, 1] = Inr [(''g1'', 3 / 4), (''g2'', 1 / 4)]"
    by (simp add: rf_ranking_def column_names_def feature_importance_def importance_frame_def
        sort_values_desc_def)
  have svm: "svmrfe_ranking ?lib ?X [0, 1] = Inr [(''g1'', 1), (''g2'', 1)]"
    by (simp add: svmrfe_ranking_def column_names_def feature_importance_def importance_frame_def
        sort_values_desc_def)
  have common: "intersection_features [(''g1'', 1 / 2), (''g2'', 1 / 4 :: real)]
      [(''g1'', 3 / 4), (''g2'', 1 / 4 :: real)] [(''g1'', 1), (''g2'', 1 :: int)] = {''g1'', ''g2''}"
    by (auto simp: intersection_features_def feature_set_def)
  have order: "set_order ?lib {''g1'', ''g2''} = [''g2'', ''g1'']"
    by simp
  show ?thesis
    unfolding run_def split and_then_Inr prod.case scaled lasso rf svm Let_def
    by (simp add: positive_importance_def common order compile_scores_def score_row_def
        values0_def matching_values_def verify_t_test_def split [simplified] get_column_def
        ttest_row_of_def label_group_def set_column_def column_names_def filter_rows_def
        DataFrame_def scored_columns_def ttest_columns_def)
qed

theorem rerun_same_up_to_row_order_witness:
  "(let lib = \<lparr>StandardScaler_fit_transform = (\<lambda>X. Inr (map snd X)),
             Lasso_fit = (\<lambda>alpha X y. Inr [1 / 2, 1 / 4]),
             RandomForestClassifier_fit = (\<lambda>n seed X y. Inr [3 / 4, 1 / 4]),
             RFE_SVC_fit = (\<lambda>seed n X y. Inr [1, 1]),
             ttest_ind = (\<lambda>equal_var a b. (Finite (sum_list a - sum_list b), Finite (sum_list a + sum_list b))),
             set_order = (\<lambda>S. filter (\<lambda>f. f \<in> S) [''g1'', ''g2''])\<rparr>;
       ord = (\<lambda>S. filter (\<lambda>f. f \<in> S) [''g2'', ''g1'']);
       data = [(''g1'', [1, 2]), (''g2'', [4, 3]), (''label'', [0, 1])]
    in \<exists>nb nb'. run lib data = Inr nb \<and> run (lib\<lparr>set_order := ord\<rparr>) data = Inr nb'
         \<and> enumerates (set_order lib (common_features nb)) (common_features nb)
         \<and> enumerates (ord (common_features nb')) (common_features nb')
         \<and> common_features nb' = {''g1'', ''g2''} \<and> common_features nb = {''g1'', ''g2''}
         \<and> map Feature (rows (selected_features nb)) = [''g1'', ''g2'']
         \<and> map Feature (rows (selected_features nb')) = [''g2'', ''g1'']
         \<and> mset (rows (selected_features nb')) = mset (rows (selected_features nb))
         \<and> mset (rows (t_test_results_df nb')) = mset (rows (t_test_results_df nb)))"
proof -
  define lib where "lib = \<lparr>StandardScaler_fit_transform = (\<lambda>X. Inr (map snd X)),
         Lasso_fit = (\<lambda>alpha X y. Inr [1 / 2, 1 / 4]),
         RandomForestClassifier_fit = (\<lambda>n seed X y. Inr [3 / 4, 1 / 4]),
         RFE_SVC_fit = (\<lambda>seed n X y. Inr [1, 1]),
         ttest_ind = (\<lambda>(equal_var :: bool) (a :: real list) (b :: real list). (Finite (sum_list a - sum_list b), Finite (sum_list a + sum_list b))),
         set_order = (\<lambda>S. filter (\<lambda>f. f \<in> S) [''g1'', ''g2''])\<rparr>"
  define ord where "ord = (\<lambda>S :: string set. filter (\<lambda>f. f \<in> S) [''g2'', ''g1''])"
  define data :: frame where "data = [(''g1'', [1, 2]), (''g2'', [4, 3]), (''label'', [0, 1])]"
  define nb where "nb = \<lparr>X_scaled = [[1, 2], [4, 3]],
           lasso_feature_importance = [(''g1'', 1 / 2), (''g2'', 1 / 4)],
           rf_feature_importance = [(''g1'', 3 / 4), (''g2'', 1 / 4)],
           svmrfe_feature_importance = [(''g1'', 1), (''g2'', 1)],
           common_features = {''g1'', ''g2''},
           selected_features =
             \<lparr>columns = [''Feature'', ''Lasso'', ''Random Forest'', ''SVM-RFE''],
              rows = [\<lparr>Feature = ''g1'', Lasso = 1 / 2, Random_Forest = 3 / 4, SVM_RFE = 1\<rparr>,
                      \<lparr>Feature = ''g2'', Lasso = 1 / 4, Random_Forest = 1 / 4, SVM_RFE = 1\<rparr>]\<rparr>,
           t_test_results_df =
             \<lparr>columns = [''Feature'', ''t-statistic'', ''p-value''],
              rows = [\<lparr>Feature = ''g1'', t_statistic = Finite (- 1), p_value = Finite 3\<rparr>,
                      \<lparr>Feature = ''g2'', t_statistic = Finite (1), p_value = Finite 7\<rparr>]\<rparr>\<rparr>"
  define nb' where "nb' = \<lparr>X_scaled = [[1, 2], [4, 3]],
           lasso_feature_importance = [(''g1'', 1 / 2), (''g2'', 1 / 4)],
           rf_feature_importance = [(''g1'', 3 / 4), (''g2'', 1 / 4)],
           svmrfe_feature_importance = [(''g1'', 1), (''g2'', 1)],
           common_features = {''g1'', ''g2''},
           selected_features =
             \<lparr>columns = [''Feature'', ''Lasso'', ''Random Forest'', ''SVM-RFE''],
              rows = [\<lparr>Feature = ''g2'', Lasso = 1 / 4, Random_Forest = 1 / 4, SVM_RFE = 1\<rparr>,
                      \<lparr>Feature = ''g1'', Lasso = 1 / 2, Random_Forest = 3 / 4, SVM_RFE = 1\<rparr>]\<rparr>,
           t_test_results_df =
             \<lparr>columns = [''Feature'', ''t-statistic'', ''p-value''],
              rows = [\<lparr>Feature = ''g2'', t_statistic = Finite (1), p_value = Finite 7\<rparr>,
                      \<lparr>Feature = ''g1'', t_statistic = Finite (- 1), p_value = Finite 3\<rparr>]\<rparr>\<rparr>"
  have lib': "lib\<lparr>set_order := ord\<rparr> = \<lparr>StandardScaler_fit_transform = (\<lambda>X. Inr (map snd X)),
         Lasso_fit = (\<lambda>alpha X y. Inr [1 / 2, 1 / 4]),
         RandomForestClassifier_fit = (\<lambda>n seed X y. Inr [3 / 4, 1 / 4]),
         RFE_SVC_fit = (\<lambda>seed n X y. Inr [1, 1]),
         ttest_ind = (\<lambda>equal_var a b. (Finite (sum_list a - sum_list b), Finite (sum_list a + sum_list b))),
         set_order = (\<lambda>S. filter (\<lambda>f. f \<in> S) [''g2'', ''g1''])\<rparr>"
    by (simp add: lib_def ord_def)
  have run1: "run lib data = Inr nb"
    unfolding lib_def data_def nb_def by (rule example_run_order1)
  have run2: "run (lib\<lparr>set_order := ord\<rparr>) data = Inr nb'"
    unfolding lib' data_def nb'_def by (rule example_run_order2)
  have c: "common_features nb = {''g1'', ''g2''}" and c': "common_features nb' = {''g1'', ''g2''}"
    by (simp_all add: nb_def nb'_def)
  have e: "enumerates (set_order lib (common_features nb)) (common_features nb)"
    unfolding c by (simp add: lib_def enumerates_def)
  have e': "enumerates (ord (common_features nb')) (common_features nb')"
    unfolding c' by (auto simp: ord_def enumerates_def)
  have f: "map Feature (rows (selected_features nb)) = [''g1'', ''g2'']"
    and f': "map Feature (rows (selected_features nb')) = [''g2'', ''g1'']"
    by (simp_all add: nb_def nb'_def)
  note same = rerun_same_up_to_row_order [OF run1 run2 e e']
  have "\<exists>nb nb'. run lib data = Inr nb \<and> run (lib\<lparr>set_order := ord\<rparr>) data = Inr nb'
         \<and> enumerates (set_order lib (common_features nb)) (common_features nb)
         \<and> enumerates (ord (common_features nb')) (common_features nb')
         \<and> common_features nb' = {''g1'', ''g2''} \<and> common_features nb = {''g1'', ''g2''}
         \<and> map Feature (rows (selected_features nb)) = [''g1'', ''g2'']
         \<and> map Feature (rows (selected_features nb')) = [''g2'', ''g1'']
         \<and> mset (rows (selected_features nb')) = mset (rows (selected_features nb))
         \<and> mset (rows (t_test_results_df nb')) = mset (rows (t_test_results_df nb))"
    using same by (intro exI [of _ nb] exI [of _ nb'] conjI run1 run2 e e' c c' f f') simp_all
  then show ?thesis
    unfolding Let_def lib_def ord_def data_def .
qed

text \<open>
  Claim C8 as stated fails: two runs on the same data and the same library results,
  one iterating the set of common features as \<open>g1, g2\<close> and the other as \<open>g2, g1\<close>
  (both are enumerations of the same set), end with the same intersection but with
  scored tables and t-test tables that differ in the order of their rows.
\<close>

theorem rerun_row_order_counterexample:
  "map_sum id selected_features
     (run \<lparr>StandardScaler_fit_transform = (\<lambda>X. Inr (map snd X)),
         Lasso_fit = (\<lambda>alpha X y. Inr [1 / 2, 1 / 4]),
         RandomForestClassifier_fit = (\<lambda>n seed X y. Inr [3 / 4, 1 / 4]),
         RFE_SVC_fit = (\<lambda>seed n X y. Inr [1, 1]),
         ttest_ind = (\<lambda>equal_var a b. (Finite (sum_list a - sum_list b), Finite (sum_list a + sum_list b))),
         set_order = (\<lambda>S. filter (\<lambda>f. f \<in> S) [''g1'', ''g2''])\<rparr>
        [(''g1'', [1, 2]), (''g2'', [4, 3]), (''label'', [0, 1])])
   \<noteq> map_sum id selected_features
     (run \<lparr>StandardScaler_fit_transform = (\<lambda>X. Inr (map snd X)),
         Lasso_fit = (\<lambda>alpha X y. Inr [1 / 2, 1 / 4]),
         RandomForestClassifier_fit = (\<lambda>n seed X y. Inr [3 / 4, 1 / 4]),
         RFE_SVC_fit = (\<lambda>seed n X y. Inr [1, 1]),
         ttest_ind = (\<lambda>equal_var a b. (Finite (sum_list a - sum_list b), Finite (sum_list a + sum_list b))),
         set_order = (\<lambda>S. filter (\<lambda>f. f \<in> S) [''g2'', ''g1''])\<rparr>
        [(''g1'', [1, 2]), (''g2'', [4, 3]), (''label'', [0, 1])])
   \<and> map_sum id t_test_results_df
     (run \<lparr>StandardScaler_fit_transform = (\<lambda>X. Inr (map snd X)),
         Lasso_fit = (\<lambda>alpha X y. Inr [1 / 2, 1 / 4]),
         RandomForestClassifier_fit = (\<lambda>n seed X y. Inr [3 / 4, 1 / 4]),
         RFE_SVC_fit = (\<lambda>seed n X y. Inr [1, 1]),
         ttest_ind = (\<lambda>equal_var a b. (Finite (sum_list a - sum_list b), Finite (sum_list a + sum_list b))),
         set_order = (\<lambda>S. filter (\<lambda>f. f \<in> S) [''g1'', ''g2''])\<rparr>
        [(''g1'', [1, 2]), (''g2'', [4, 3]), (''label'', [0, 1])])
   \<noteq> map_sum id t_test_results_df
     (run \<lparr>StandardScaler_fit_transform = (\<lambda>X. Inr (map snd X)),
         Lasso_fit = (\<lambda>alpha X y. Inr [1 / 2, 1 / 4]),
         RandomForestClassifier_fit = (\<lambda>n seed X y. Inr [3 / 4, 1 / 4]),
         RFE_SVC_fit = (\<lambda>seed n X y. Inr [1, 1]),
         ttest_ind = (\<lambda>equal_var a b. (Finite (sum_list a - sum_list b), Finite (sum_list a + sum_list b))),
         set_order = (\<lambda>S. filter (\<lambda>f. f \<in> S) [''g2'', ''g1''])\<rparr>
        [(''g1'', [1, 2]), (''g2'', [4, 3]), (''label'', [0, 1])])
   \<and> map_sum id common_features
     (run \<lparr>StandardScaler_fit_transform = (\<lambda>X. Inr (map snd X)),
         Lasso_fit = (\<lambda>alpha X y. Inr [1 / 2, 1 / 4]),
         RandomForestClassifier_fit = (\<lambda>n seed X y. Inr [3 / 4, 1 / 4]),
         RFE_SVC_fit = (\<lambda>seed n X y. Inr [1, 1]),
         ttest_ind = (\<lambda>equal_var a b. (Finite (sum_list a - sum_list b), Finite (sum_list a + sum_list b))),
         set_order = (\<lambda>S. filter (\<lambda>f. f \<in> S) [''g1'', ''g2''])\<rparr>
        [(''g1'', [1, 2]), (''g2'', [4, 3]), (''label'', [0, 1])])
   = map_sum id common_features
     (run \<lparr>StandardScaler_fit_transform = (\<lambda>X. Inr (map snd X)),
         Lasso_fit = (\<lambda>alpha X y. Inr [1 / 2, 1 / 4]),
         RandomForestClassifier_fit = (\<lambda>n seed X y. Inr [3 / 4, 1 / 4]),
         RFE_SVC_fit = (\<lambda>seed n X y. Inr [1, 1]),
         ttest_ind = (\<lambda>equal_var a b. (Finite (sum_list a - sum_list b), Finite (sum_list a + sum_list b))),
         set_order = (\<lambda>S. filter (\<lambda>f. f \<in> S) [''g2'', ''g1''])\<rparr>
        [(''g1'', [1, 2]), (''g2'', [4, 3]), (''label'', [0, 1])])
   \<and> enumerates [''g1'', ''g2''] {''g1'', ''g2''} \<and> enumerates [''g2'', ''g1''] {''g1'', ''g2''}"
  unfolding example_run_order1 example_run_order2
  by (simp add: enumerates_def) auto

section \<open>The importance table of each selector\<close>

lemma distinct_features_without_label:
  "distinct (column_names data) \<Longrightarrow>
     distinct (column_names (filter (\<lambda>c. fst c \<noteq> ''label'') data))"
  by (simp add: column_names_def distinct_map_filter)

lemma ranking_table:
  assumes "feature_importance (column_names X) scores = Inr t"
    and "select_features_and_target data = Inr (X, y)" and "distinct (column_names data)"
  shows "set (map fst t) = set (column_names data) - {''label''}
       \<and> (\<forall>f \<in> set (column_names data) - {''label''}. count_list (map fst t) f = 1)
       \<and> length t = length (column_names X)
       \<and> sorted (rev (map snd t))
       \<and> mset t = mset (zip (column_names X) scores)"
proof -
  from assms(2) have X: "X = filter (\<lambda>c. fst c \<noteq> ''label'') data"
    by (simp add: select_features_and_target_Inr)
  then have d: "distinct (column_names X)"
    using assms(3) by (simp add: distinct_features_without_label)
  have names: "set (column_names X) = set (column_names data) - {''label''}"
    unfolding X by (rule features_without_label)
  from assms(1) have len: "length scores = length (column_names X)"
    and t: "t = sort_values_desc (zip (column_names X) scores)"
    by (simp_all add: feature_importance_Inr)
  from feature_importance_table [OF d len] assms(1)
  have "mset t = mset (zip (column_names X) scores)" "set (map fst t) = set (column_names X)"
    "\<forall>f \<in> set (column_names X). count_list (map fst t) f = 1" "sorted (rev (map snd t))"
    by auto
  moreover have "length t = length (column_names X)"
    using len by (simp add: t length_sort_values_desc)
  ultimately show ?thesis
    by (simp add: names)
qed

text \<open>
  Claim C7. For each selector the feature-importance table that its cell builds (the
  sorted table, before the rows with a score of zero are dropped) contains every
  feature of the input dataset, that is every column but the label, exactly once, with
  the score the selector gave it (Lasso's absolute coefficient, the forest's
  importance, the RFE rank), and its rows are in descending order of score. The cell
  builds the table whenever the fit returns one score per feature. The column names of
  a loaded dataset are distinct.
\<close>

theorem selector_tables_complete_sorted:
  assumes "select_features_and_target data = Inr (X, y)" and "distinct (column_names data)"
  shows
    "(\<forall>t. lasso_ranking lib X y = Inr t \<longrightarrow>
         set (map fst t) = set (column_names data) - {''label''}
       \<and> (\<forall>f \<in> set (column_names data) - {''label''}. count_list (map fst t) f = 1)
       \<and> length t = length (column_names X)
       \<and> sorted (rev (map snd t))
       \<and> (\<exists>coef. Lasso_fit lib (1 / 100) X y = Inr coef
             \<and> mset t = mset (zip (column_names X) (map abs coef))))
   \<and> (\<forall>coef. Lasso_fit lib (1 / 100) X y = Inr coef \<longrightarrow> length coef = length (column_names X) \<longrightarrow>
         (\<exists>t. lasso_ranking lib X y = Inr t))
   \<and> (\<forall>t. rf_ranking lib X y = Inr t \<longrightarrow>
         set (map fst t) = set (column_names data) - {''label''}
       \<and> (\<forall>f \<in> set (column_names data) - {''label''}. count_list (map fst t) f = 1)
       \<and> length t = length (column_names X)
       \<and> sorted (rev (map snd t))
       \<and> (\<exists>importance. RandomForestClassifier_fit lib 100 42 X y = Inr importance
             \<and> mset t = mset (zip (column_names X) importance)))
   \<and> (\<forall>importance. RandomForestClassifier_fit lib 100 42 X y = Inr importance \<longrightarrow>
         length importance = length (column_names X) \<longrightarrow> (\<exists>t. rf_ranking lib X y = Inr t))
   \<and> (\<forall>t. svmrfe_ranking lib X y = Inr t \<longrightarrow>
         set (map fst t) = set (column_names data) - {''label''}
       \<and> (\<forall>f \<in> set (column_names data) - {''label''}. count_list (map fst t) f = 1)
       \<and> length t = length (column_names X)
       \<and> sorted (rev (map snd t))
       \<and> (\<exists>ranking. RFE_SVC_fit lib 42 10 X y = Inr ranking
             \<and> mset t = mset (zip (column_names X) ranking)))
   \<and> (\<forall>ranking. RFE_SVC_fit lib 42 10 X y = Inr ranking \<longrightarrow>
         length ranking = length (column_names X) \<longrightarrow> (\<exists>t. svmrfe_ranking lib X y = Inr t))"
proof (intro conjI allI impI)
  fix t assume "lasso_ranking lib X y = Inr t"
  then obtain coef where fit: "Lasso_fit lib (1 / 100) X y = Inr coef"
    and t: "feature_importance (column_names X) (map abs coef) = Inr t"
    by (auto simp: lasso_ranking_Inr)
  note p = ranking_table [OF t assms]
  from p show "set (map fst t) = set (column_names data) - {''label''}" by simp
  from p show "\<forall>f \<in> set (column_names data) - {''label''}. count_list (map fst t) f = 1" by simp
  from p show "length t = length (column_names X)" by simp
  from p show "sorted (rev (map snd t))" by simp
  from p fit show "\<exists>coef. Lasso_fit lib (1 / 100) X y = Inr coef
      \<and> mset t = mset (zip (column_names X) (map abs coef))" by simp
next
  fix coef assume "Lasso_fit lib (1 / 100) X y = Inr coef" "length coef = length (column_names X)"
  then show "\<exists>t. lasso_ranking lib X y = Inr t"
    by (simp add: lasso_ranking_Inr feature_importance_Inr)
next
  fix t assume "rf_ranking lib X y = Inr t"
  then obtain importance where fit: "RandomForestClassifier_fit lib 100 42 X y = Inr importance"
    and t: "feature_importance (column_names X) importance = Inr t"
    by (auto simp: rf_ranking_Inr)
  note p = ranking_table [OF t assms]
  from p show "set (map fst t) = set (column_names data) - {''label''}" by simp
  from p show "\<forall>f \<in> set (column_names data) - {''label''}. count_list (map fst t) f = 1" by simp
  from p show "length t = length (column_names X)" by simp
  from p show "sorted (rev (map snd t))" by simp
  from p fit show "\<exists>importance. RandomForestClassifier_fit lib 100 42 X y = Inr importance
      \<and> mset t = mset (zip (column_names X) importance)" by simp
next
  fix importance
  assume "RandomForestClassifier_fit lib 100 42 X y = Inr importance"
    "length importance = length (column_names X)"
  then show "\<exists>t. rf_ranking lib X y = Inr t"
    by (simp add: rf_ranking_Inr feature_importance_Inr)
next
  fix t assume "svmrfe_ranking lib X y = Inr t"
  then obtain ranking where fit: "RFE_SVC_fit lib 42 10 X y = Inr ranking"
    and t: "feature_importance (column_names X) ranking = Inr t"
    by (auto simp: svmrfe_ranking_Inr)
  note p = ranking_table [OF t assms]
  from p show "set (map fst t) = set (column_names data) - {''label''}" by simp
  from p show "\<forall>f \<in> set (column_names data) - {''label''}. count_list (map fst t) f = 1" by simp
  from p show "length t = length (column_names X)" by simp
  from p show "sorted (rev (map snd t))" by simp
  from p fit show "\<exists>ranking. RFE_SVC_fit lib 42 10 X y = Inr ranking
      \<and> mset t = mset (zip (column_names X) ranking)" by simp
next
  fix ranking assume "RFE_SVC_fit lib 42 10 X y = Inr ranking" "length ranking = length (column_names X)"
  then show "\<exists>t. svmrfe_ranking lib X y = Inr t"
    by (simp add: svmrfe_ranking_Inr feature_importance_Inr)
qed

theorem selector_tables_complete_sorted_witness:
  "(let lib = \<lparr>StandardScaler_fit_transform = (\<lambda>X. Inr (map snd X)),
                Lasso_fit = (\<lambda>alpha X y. Inr [0, - (3 / 10), 1 / 10]),
                RandomForestClassifier_fit = (\<lambda>n seed X y. Inr [1 / 2, 1 / 4, 1 / 4]),
                RFE_SVC_fit = (\<lambda>seed n X y. Inr [1, 2, 1]),
                ttest_ind = (\<lambda>equal_var a b. (NaN, NaN)),
                set_order = (\<lambda>S. [])\<rparr>;
        data = [(''g1'', [1, 2]), (''g2'', [4, 3]), (''g3'', [5, 5]), (''label'', [0, 1])];
        X = [(''g1'', [1, 2]), (''g2'', [4, 3]), (''g3'', [5, 5])]
    in select_features_and_target data = Inr (X, [0, 1])
       \<and> distinct (column_names data)
       \<and> lasso_ranking lib X [0, 1] = Inr [(''g2'', 3 / 10), (''g3'', 1 / 10), (''g1'', 0)]
       \<and> rf_ranking lib X [0, 1] = Inr [(''g1'', 1 / 2), (''g2'', 1 / 4), (''g3'', 1 / 4)]
       \<and> svmrfe_ranking lib X [0, 1] = Inr [(''g2'', 2), (''g1'', 1), (''g3'', 1)]
       \<and> set (map fst [(''g2'', 3 / 10), (''g3'', 1 / 10), (''g1'', 0 :: real)])
           = set (column_names data) - {''label''}
       \<and> sorted (rev (map snd [(''g2'', 3 / 10), (''g3'', 1 / 10), (''g1'', 0 :: real)]))
       \<and> sorted (rev (map snd [(''g1'', 1 / 2), (''g2'', 1 / 4), (''g3'', 1 / 4 :: real)]))
       \<and> sorted (rev (map snd [(''g2'', 2), (''g1'', 1), (''g3'', 1 :: int)]))
       \<and> count_list (map fst [(''g2'', 2), (''g1'', 1), (''g3'', 1 :: int)]) ''g3'' = 1)"
proof -
  define lib where "lib = \<lparr>StandardScaler_fit_transform = (\<lambda>X. Inr (map snd X)),
                Lasso_fit = (\<lambda>alpha X y. Inr [0, - (3 / 10), 1 / 10]),
                RandomForestClassifier_fit = (\<lambda>n seed X y. Inr [1 / 2, 1 / 4, 1 / 4]),
                RFE_SVC_fit = (\<lambda>seed n X y. Inr [1, 2, 1]),
                ttest_ind = (\<lambda>equal_var a b. (NaN, NaN)),
                set_order = (\<lambda>S. [])\<rparr>"
  define data :: frame where "data = [(''g1'', [1, 2]), (''g2'', [4, 3]), (''g3'', [5, 5]), (''label'', [0, 1])]"
  define X :: frame where "X = [(''g1'', [1, 2]), (''g2'', [4, 3]), (''g3'', [5, 5])]"
  have split: "select_features_and_target data = Inr (X, [0, 1])"
    by (simp add: data_def X_def select_features_and_target_def drop_column_def column_names_def
        get_column_def)
  have d: "distinct (column_names data)"
    by (simp add: data_def column_names_def)
  have names: "set (column_names data) - {''label''} = {''g1'', ''g2'', ''g3''}"
    by (auto simp: data_def column_names_def)
  have lasso: "lasso_ranking lib X [0, 1] = Inr [(''g2'', 3 / 10), (''g3'', 1 / 10), (''g1'', 0)]"
    by (simp add: lib_def X_def lasso_ranking_def column_names_def feature_importance_def
        importance_frame_def sort_values_desc_def)
  have rf: "rf_ranking lib X [0, 1] = Inr [(''g1'', 1 / 2), (''g2'', 1 / 4), (''g3'', 1 / 4)]"
    by (simp add: lib_def X_def rf_ranking_def column_names_def feature_importance_def
        importance_frame_def sort_values_desc_def)
  have svm: "svmrfe_ranking lib X [0, 1] = Inr [(''g2'', 2), (''g1'', 1), (''g3'', 1)]"
    by (simp add: lib_def X_def svmrfe_ranking_def column_names_def feature_importance_def
        importance_frame_def sort_values_desc_def)
  note all = selector_tables_complete_sorted [OF split d, of lib]
  note lasso_p = all [THEN conjunct1, rule_format, OF lasso]
  note rf_p = all [THEN conjunct2, THEN conjunct2, THEN conjunct1, rule_format, OF rf]
  note svm_p = all [THEN conjunct2, THEN conjunct2, THEN conjunct2, THEN conjunct2,
      THEN conjunct1, rule_format, OF svm]
  note l1 = lasso_p [THEN conjunct1]
  note l2 = lasso_p [THEN conjunct2, THEN conjunct2, THEN conjunct2, THEN conjunct1]
  note r2 = rf_p [THEN conjunct2, THEN conjunct2, THEN conjunct2, THEN conjunct1]
  note s2 = svm_p [THEN conjunct2, THEN conjunct2, THEN conjunct2, THEN conjunct1]
  have "''g3'' \<in> set (column_names data) - {''label''}"
    unfolding names by simp
  with svm_p [THEN conjunct2, THEN conjunct1]
  have s1: "count_list (map fst [(''g2'', 2), (''g1'', 1), (''g3'', 1 :: int)]) ''g3'' = 1"
    by (rule bspec)
  have "select_features_and_target data = Inr (X, [0, 1])
       \<and> distinct (column_names data)
       \<and> lasso_ranking lib X [0, 1] = Inr [(''g2'', 3 / 10), (''g3'', 1 / 10), (''g1'', 0)]
       \<and> rf_ranking lib X [0, 1] = Inr [(''g1'', 1 / 2), (''g2'', 1 / 4), (''g3'', 1 / 4)]
       \<and> svmrfe_ranking lib X [0, 1] = Inr [(''g2'', 2), (''g1'', 1), (''g3'', 1)]
       \<and> set (map fst [(''g2'', 3 / 10), (''g3'', 1 / 10), (''g1'', 0 :: real)])
           = set (column_names data) - {''label''}
       \<and> sorted (rev (map snd [(''g2'', 3 / 10), (''g3'', 1 / 10), (''g1'', 0 :: real)]))
       \<and> sorted (rev (map snd [(''g1'', 1 / 2), (''g2'', 1 / 4), (''g3'', 1 / 4 :: real)]))
       \<and> sorted (rev (map snd [(''g2'', 2), (''g1'', 1), (''g3'', 1 :: int)]))
       \<and> count_list (map fst [(''g2'', 2), (''g1'', 1), (''g3'', 1 :: int)]) ''g3'' = 1"
    by (intro conjI split d lasso rf svm l1 l2 r2 s2 s1)
  then show ?thesis
    unfolding Let_def lib_def data_def X_def .
qed

end
